theory Spec2Isabelle
  imports Main
begin

section \<open>The bootstrap launcher \<^verbatim>\<open>src/app_launcher/app_launcher.cpp\<close>\<close>

text \<open>
  The launcher probes for the interpreter, decides whether the requirements must be
  (re)installed, installs them, and starts \<^verbatim>\<open>src/main.py\<close> with the arguments it
  received. Everything it does is an effect on its surroundings: it spawns commands,
  looks at and writes files below the \<^verbatim>\<open>temp\<close> folder next to the executable, and
  prints. The model makes these surroundings explicit:

  \<^item> \<open>os_env\<close> holds what the operating system answers: the outcome of the \<open>n\<close>-th
    external command when it is opened with \<^verbatim>\<open>popen\<close> or run with \<^verbatim>\<open>system\<close>, the
    paths that it refuses to open for writing, and the directory of the running
    executable;
  \<^item> \<open>world\<close> is the state a run changes: the file system, the number of external
    commands started so far, and the trace of every observable event in call order.

  Each C++ function becomes a HOL function from a \<open>world\<close> to its result and the new
  \<open>world\<close>. The exception thrown by \<^verbatim>\<open>exec\<close> is a value of a sum type.

  Assumptions on the surroundings, none of which is visible in the source: the
  directory of the executable exists, and \<^verbatim>\<open>fs::exists\<close> and \<^verbatim>\<open>fs::create_directory\<close> do
  not throw; a stream that has been opened for writing takes what it is given (the
  disk is not full); paths are POSIX paths; the process runs in the C locale; and the
  commands that are spawned leave the \<^verbatim>\<open>temp\<close> folder alone. Whether a stream opens is
  not assumed: what the file system holds at the paths the launcher uses is part of
  the state, the operating system may refuse a path, a stream that cannot be opened
  stays closed, and the source never checks a stream.

  The older variant \<^verbatim>\<open>src/app_launcher.cpp\<close> has the same \<^verbatim>\<open>exec\<close>, probe and launcher,
  installs on every run and keeps no marker; it is not modelled separately.
\<close>

subsection \<open>Strings\<close>

text \<open>\<^verbatim>\<open>std::isspace\<close> in the C locale: space, and the controls 9 to 13.\<close>

definition isspace :: "char \<Rightarrow> bool" where
  "isspace ch \<longleftrightarrow>
     ch = CHR '' '' \<or> ch = CHR 0x09 \<or> ch = CHR 0x0A \<or> ch = CHR 0x0B \<or> ch = CHR 0x0C \<or> ch = CHR 0x0D"

text \<open>
  \<^verbatim>\<open>trim\<close> (lines 22-30): erase the leading white space, then erase from the base of
  the last character that is not white space to the end.
\<close>

definition trim :: "string \<Rightarrow> string" where
  "trim s = (let s1 = dropWhile isspace s in rev (dropWhile isspace (rev s1)))"

text \<open>
  \<^verbatim>\<open>std::getline(infile, s)\<close> on a freshly opened stream: the characters before the
  first line feed, or all of them when there is none.
\<close>

definition getline :: "string \<Rightarrow> string" where
  "getline content = takeWhile (\<lambda>c. c \<noteq> CHR 0x0A) content"

text \<open>
  \<^verbatim>\<open>operator/\<close> of \<^verbatim>\<open>std::filesystem::path\<close> with a relative right-hand side: a
  separator is added unless the left-hand side is empty or ends with one.
\<close>

definition path_append :: "string \<Rightarrow> string \<Rightarrow> string" where
  "path_append p n = (if p = [] \<or> last p = CHR ''/'' then p @ n else p @ ''/'' @ n)"

text \<open>
  The directory a path lies in (\<^verbatim>\<open>parent_path\<close>): the path without its last component
  and the separators before it; the root for a path directly below the root.
\<close>

definition parent_path :: "string \<Rightarrow> string" where
  "parent_path p =
     (let r = dropWhile (\<lambda>c. c \<noteq> CHR ''/'') (rev p);
          d = dropWhile (\<lambda>c. c = CHR ''/'') r
      in if r = [] then [] else if d = [] then ''/'' else rev d)"

text \<open>
  Streaming a \<^verbatim>\<open>std::filesystem::path\<close> prints it with \<^verbatim>\<open>std::quoted\<close>: between
  double quotes, a backslash before every double quote and backslash.
\<close>

definition quoted :: "string \<Rightarrow> string" where
  "quoted s =
     [CHR 0x22] @ concat (map (\<lambda>c. if c = CHR 0x22 \<or> c = CHR 0x5C then [CHR 0x5C, c] else [c]) s)
       @ [CHR 0x22]"

subsection \<open>The surroundings\<close>

datatype node = Directory | File string

type_synonym filesystem = "string \<rightharpoonup> node"

datatype event =
    Popen string "string option"
  | System string int
  | Stdout string
  | Stderr string
  | FsExists string
  | FsCreateDirectory string
  | FsRead string
  | FsWrite string string
  | FsOpenFailed string

record os_env =
  popen_reply :: "nat \<Rightarrow> string \<Rightarrow> string option"
  system_reply :: "nat \<Rightarrow> string \<Rightarrow> int"
  write_refused :: "string \<Rightarrow> bool"
  executable_directory :: string

record world =
  files :: filesystem
  clock :: nat
  trace :: "event list"

definition emit :: "event \<Rightarrow> world \<Rightarrow> world" where
  "emit e w = w\<lparr>trace := trace w @ [e]\<rparr>"

definition fs_exists :: "string \<Rightarrow> world \<Rightarrow> bool \<times> world" where
  "fs_exists p w = (files w p \<noteq> None, emit (FsExists p) w)"

definition create_directory :: "string \<Rightarrow> world \<Rightarrow> world" where
  "create_directory p w = emit (FsCreateDirectory p) (w\<lparr>files := (files w)(p \<mapsto> Directory)\<rparr>)"

text \<open>
  \<^verbatim>\<open>std::ofstream outfile(p); outfile << s;\<close> truncates or creates the file and writes
  \<open>s\<close>, when the stream opens. It does not open when the operating system refuses
  \<open>p\<close> (a missing permission, a file system that is read-only), when \<open>p\<close> is a
  directory, or when the directory \<open>p\<close> lies in is missing or is not a directory; then
  the stream is in a failed state, \<^verbatim>\<open><<\<close> does nothing, nothing is thrown, and the file
  system is as it was.
\<close>

definition ofstream_opens :: "os_env \<Rightarrow> filesystem \<Rightarrow> string \<Rightarrow> bool" where
  "ofstream_opens os F p \<longleftrightarrow>
     \<not> write_refused os p \<and> F (parent_path p) = Some Directory \<and> F p \<noteq> Some Directory"

definition ofstream_write :: "os_env \<Rightarrow> string \<Rightarrow> string \<Rightarrow> world \<Rightarrow> world" where
  "ofstream_write os p s w =
     (if ofstream_opens os (files w) p
      then emit (FsWrite p s) (w\<lparr>files := (files w)(p \<mapsto> File s)\<rparr>)
      else emit (FsOpenFailed p) w)"

text \<open>
  \<^verbatim>\<open>std::ifstream infile(p); std::getline(infile, s);\<close> with \<open>s\<close> empty before: the
  first line of a regular file; \<open>s\<close> stays empty when nothing can be read.
\<close>

definition ifstream_getline :: "string \<Rightarrow> world \<Rightarrow> string \<times> world" where
  "ifstream_getline p w =
     ((case files w p of Some (File content) \<Rightarrow> getline content | _ \<Rightarrow> []), emit (FsRead p) w)"

subsection \<open>Running commands\<close>

datatype exn = Runtime_error string

text \<open>
  \<^verbatim>\<open>fgets(buffer, n, pipe)\<close> takes at most \<open>n - 1\<close> characters from the pipe and stops
  after a line feed. \<open>fgets k\<close> is given that bound \<open>k = n - 1\<close>; it returns what was
  stored and what is left in the pipe.
\<close>

fun fgets :: "nat \<Rightarrow> string \<Rightarrow> string \<times> string" where
  "fgets k [] = ([], [])"
| "fgets k (c # cs) =
     (if k = 0 then ([], c # cs)
      else if c = CHR 0x0A then ([c], cs)
      else (case fgets (k - 1) cs of (l, r) \<Rightarrow> (c # l, r)))"

lemma fgets_append: "fgets k s = (l, r) \<Longrightarrow> l @ r = s"
  by (induction k s arbitrary: l r rule: fgets.induct) (auto split: if_splits prod.splits)

lemma fgets_shorter: "fgets k s = (l, r) \<Longrightarrow> 0 < k \<Longrightarrow> s \<noteq> [] \<Longrightarrow> length r < length s"
proof (induction k s arbitrary: l r rule: fgets.induct)
  case (1 k)
  then show ?case by simp
next
  case (2 k c cs)
  show ?case
  proof (cases "c = CHR 0x0A")
    case True
    with 2 show ?thesis by auto
  next
    case False
    obtain l' r' where f: "fgets (k - 1) cs = (l', r')" by (cases "fgets (k - 1) cs")
    from fgets_append [OF f] have "length r' \<le> length cs" by (metis length_append le_add2)
    with 2 False f show ?thesis by auto
  qed
qed

text \<open>
  The loop of \<^verbatim>\<open>exec\<close> (lines 65-67): while \<^verbatim>\<open>fgets\<close> stores something in the
  128-byte buffer, append the buffer as a C string, that is, up to its first NUL.
\<close>

function read_pipe :: "string \<Rightarrow> string" where
  "read_pipe s =
     (if s = [] then []
      else (case fgets 127 s of (chunk, rest) \<Rightarrow> takeWhile (\<lambda>c. c \<noteq> CHR 0x00) chunk @ read_pipe rest))"
  by pat_completeness auto
termination
  by (relation "measure length") (auto dest: fgets_shorter [OF sym])

text \<open>
  \<^verbatim>\<open>exec\<close> (lines 58-69). \<open>popen_reply os n cmd\<close> is \<open>None\<close> when \<^verbatim>\<open>popen\<close> returns a
  null pipe for the \<open>n\<close>-th command, and otherwise the bytes the command writes to its
  standard output. \<^verbatim>\<open>popen\<close> (\<^verbatim>\<open>_popen\<close> on Windows) passes the command line to the
  command interpreter, \<^verbatim>\<open>sh -c\<close> or \<^verbatim>\<open>cmd.exe\<close>: the pipe is null when the pipe or the
  interpreter's process cannot be created. A program that the command interpreter
  cannot find or execute leaves a pipe with nothing on it, the complaint goes to the
  error stream and the status to \<^verbatim>\<open>pclose\<close>, which \<^verbatim>\<open>exec\<close> does not look at.
\<close>

definition exec :: "os_env \<Rightarrow> string \<Rightarrow> world \<Rightarrow> (exn + string) \<times> world" where
  "exec os cmd w =
     (let reply = popen_reply os (clock w) cmd;
          w1 = emit (Popen cmd reply) (w\<lparr>clock := Suc (clock w)\<rparr>)
      in case reply of
           None \<Rightarrow> (Inl (Runtime_error ''popen() failed!''), w1)
         | Some bytes \<Rightarrow> (Inr (read_pipe bytes), w1))"

text \<open>
  \<^verbatim>\<open>system(cmd)\<close> runs the command through the shell and returns a status, which
  \<^verbatim>\<open>main\<close> only compares with 0. \<open>system_reply os n cmd\<close> is that status for the
  \<open>n\<close>-th command.
\<close>

definition system :: "os_env \<Rightarrow> string \<Rightarrow> world \<Rightarrow> int \<times> world" where
  "system os cmd w =
     (let status = system_reply os (clock w) cmd
      in (status, emit (System cmd status) (w\<lparr>clock := Suc (clock w)\<rparr>)))"

subsection \<open>The helpers of the launcher\<close>

text \<open>
  \<^verbatim>\<open>get_executable_directory\<close> (lines 33-45) asks the operating system for the path of
  the running executable and returns its parent; the answer is a parameter.
\<close>

definition get_executable_directory :: "os_env \<Rightarrow> string" where
  "get_executable_directory os = executable_directory os"

text \<open>\<^verbatim>\<open>get_temp_folder_path\<close> (lines 48-55).\<close>

definition get_temp_folder_path :: "os_env \<Rightarrow> world \<Rightarrow> string \<times> world" where
  "get_temp_folder_path os w =
     (let temp_folder = path_append (get_executable_directory os) ''temp''
      in case fs_exists temp_folder w of
           (present, w1) \<Rightarrow>
             if \<not> present
             then (temp_folder,
                   emit (Stdout (''Created temp folder at: '' @ quoted temp_folder @ ''\<newline>''))
                     (create_directory temp_folder w1))
             else (temp_folder, w1))"

text \<open>
  \<^verbatim>\<open>get_git_commit_hash\<close> (lines 72-83): the trimmed output of the revision query, or
  the empty string when \<^verbatim>\<open>exec\<close> throws.
\<close>

definition get_git_commit_hash :: "os_env \<Rightarrow> world \<Rightarrow> string \<times> world" where
  "get_git_commit_hash os w =
     (case exec os ''git rev-parse HEAD'' w of
        (Inr output, w1) \<Rightarrow>
          (let commit_hash = trim output
           in (commit_hash, emit (Stdout (''Current git commit hash: '' @ commit_hash @ ''\<newline>'')) w1))
      | (Inl e, w1) \<Rightarrow>
          ([], emit (Stderr ''Error: Failed to get git commit hash.\<newline>'') w1))"

text \<open>\<^verbatim>\<open>is_first_time_installed\<close> (lines 86-92).\<close>

definition is_first_time_installed :: "string \<Rightarrow> world \<Rightarrow> bool \<times> world" where
  "is_first_time_installed temp_folder w =
     (let install_marker_file = path_append temp_folder ''.installed''
      in case fs_exists install_marker_file w of
           (present, w1) \<Rightarrow>
             (let first_time = \<not> present
              in (first_time,
                  emit (Stdout (''Is first time installed? '' @ (if first_time then ''Yes'' else ''No'')
                                 @ ''\<newline>'')) w1)))"

text \<open>\<^verbatim>\<open>git_has_updated\<close> (lines 95-125).\<close>

definition git_has_updated :: "os_env \<Rightarrow> string \<Rightarrow> world \<Rightarrow> bool \<times> world" where
  "git_has_updated os temp_folder w =
     (case get_git_commit_hash os w of
        (current_commit_hash, w1) \<Rightarrow>
          if current_commit_hash = []
          then (False,
                emit (Stdout ''No git repository found or failed to get commit hash.\<newline>'') w1)
          else
            (let commit_hash_file = path_append temp_folder ''.git_last_commit''
             in case fs_exists commit_hash_file w1 of
                  (present, w2) \<Rightarrow>
                    if \<not> present
                    then (True,
                          emit (Stdout
                            ''No last commit hash found. Assuming first-time install or update.\<newline>'') w2)
                    else
                      (case ifstream_getline commit_hash_file w2 of
                         (line, w3) \<Rightarrow>
                           (let last_commit_hash = trim line;
                                w4 = emit (Stdout (''last_commit_hash = '' @ last_commit_hash
                                       @ '' current_commit_hash = '' @ current_commit_hash
                                       @ ''\<newline>'')) w3;
                                has_updated = (last_commit_hash \<noteq> current_commit_hash)
                            in (has_updated,
                                emit (Stdout (''Has git updated? ''
                                       @ (if has_updated then ''Yes'' else ''No'') @ ''\<newline>'')) w4)))))"

text \<open>\<^verbatim>\<open>update_git_commit_hash\<close> (lines 128-135).\<close>

definition update_git_commit_hash :: "os_env \<Rightarrow> string \<Rightarrow> world \<Rightarrow> world" where
  "update_git_commit_hash os temp_folder w =
     (case get_git_commit_hash os w of
        (current_commit_hash, w1) \<Rightarrow>
          (let commit_hash_file = path_append temp_folder ''.git_last_commit''
           in emit (Stdout (''Updated git commit hash to: '' @ current_commit_hash @ ''\<newline>''))
                (ofstream_write os commit_hash_file current_commit_hash w1)))"

text \<open>\<^verbatim>\<open>mark_as_installed\<close> (lines 138-143).\<close>

definition mark_as_installed :: "os_env \<Rightarrow> string \<Rightarrow> world \<Rightarrow> world" where
  "mark_as_installed os temp_folder w =
     (let install_marker_file = path_append temp_folder ''.installed''
      in emit (Stdout ''Marked application as installed.\<newline>'')
           (ofstream_write os install_marker_file ''installed'' w))"

subsection \<open>The driver\<close>

text \<open>
  The condition of step 2 (line 162),
  \<^verbatim>\<open>is_first_time_installed(temp_folder) || git_has_updated(temp_folder)\<close>: the right
  operand is evaluated only when the left one is false.
\<close>

definition should_install :: "os_env \<Rightarrow> string \<Rightarrow> world \<Rightarrow> bool \<times> world" where
  "should_install os temp_folder w =
     (case is_first_time_installed temp_folder w of
        (first_time, w1) \<Rightarrow> if first_time then (True, w1) else git_has_updated os temp_folder w1)"

text \<open>The command lines of steps 2 and 3 (lines 160-164 and 179-185).\<close>

definition pip_command :: "os_env \<Rightarrow> string" where
  "pip_command os =
     ''pip install -r ''
       @ path_append (path_append (get_executable_directory os) ''src'') ''requirements.txt''"

definition python_script :: "os_env \<Rightarrow> string" where
  "python_script os = path_append (path_append (get_executable_directory os) ''src'') ''main.py''"

text \<open>
  The loop of lines 182-185, from \<open>i = 1\<close>: a space and the argument are appended to
  the command line, for each argument in turn.
\<close>

fun append_arguments :: "string \<Rightarrow> string list \<Rightarrow> string" where
  "append_arguments cmd [] = cmd"
| "append_arguments cmd (a # as) = append_arguments ((cmd @ '' '') @ a) as"

definition python_command :: "os_env \<Rightarrow> string list \<Rightarrow> string" where
  "python_command os argv = append_arguments (''python '' @ python_script os) (drop 1 argv)"

text \<open>Step 3 of \<^verbatim>\<open>main\<close> (lines 178-196).\<close>

definition launch :: "os_env \<Rightarrow> string list \<Rightarrow> world \<Rightarrow> int \<times> world" where
  "launch os argv w =
     (let w1 = emit (Stdout (''Launching Python script: '' @ python_command os argv @ ''\<newline>'')) w
      in case system os (python_command os argv) w1 of
           (python_result, w2) \<Rightarrow>
             if python_result \<noteq> 0
             then (1, emit (Stderr ''Error: Python script execution failed.\<newline>'') w2)
             else (0, emit (Stdout ''Python script executed successfully.\<newline>'') w2))"

text \<open>Step 2 of \<^verbatim>\<open>main\<close> (lines 155-176), followed by step 3.\<close>

definition install_and_launch :: "os_env \<Rightarrow> string list \<Rightarrow> world \<Rightarrow> int \<times> world" where
  "install_and_launch os argv w =
     (case get_temp_folder_path os w of
        (temp_folder, w1) \<Rightarrow>
          (case should_install os temp_folder w1 of
             (True, w2) \<Rightarrow>
               (case system os (pip_command os) (emit (Stdout ''Installing requirements...\<newline>'') w2) of
                  (pip_result, w3) \<Rightarrow>
                    if pip_result \<noteq> 0
                    then (1, emit (Stderr ''Error: Failed to install requirements.\<newline>'') w3)
                    else launch os argv
                           (update_git_commit_hash os temp_folder (mark_as_installed os temp_folder w3)))
           | (False, w2) \<Rightarrow>
               launch os argv
                 (emit (Stdout ''Requirements already installed. Skipping installation...\<newline>'') w2)))"

text \<open>
  \<^verbatim>\<open>main\<close> (lines 145-197): \<open>argv\<close> is the whole argument vector, the program name
  first; the result is the exit status.
\<close>

definition main :: "os_env \<Rightarrow> string list \<Rightarrow> world \<Rightarrow> int \<times> world" where
  "main os argv w =
     (case exec os ''python --version'' w of
        (Inl e, w1) \<Rightarrow> (1, emit (Stderr ''Error: Python is not installed or not in PATH.\<newline>'') w1)
      | (Inr python_version, w1) \<Rightarrow>
          install_and_launch os argv (emit (Stdout (''Python is installed: '' @ python_version)) w1))"

subsection \<open>Vocabulary for the properties\<close>

text \<open>The folder and the two markers, as \<^verbatim>\<open>main\<close> and its helpers compute their paths.\<close>

definition temp_folder :: "os_env \<Rightarrow> string" where
  "temp_folder os = path_append (get_executable_directory os) ''temp''"

definition installed_marker :: "os_env \<Rightarrow> string" where
  "installed_marker os = path_append (temp_folder os) ''.installed''"

definition revision_marker :: "os_env \<Rightarrow> string" where
  "revision_marker os = path_append (temp_folder os) ''.git_last_commit''"

text \<open>The events of a run that starts in \<open>w\<close> and ends in \<open>w'\<close>.\<close>

definition run_events :: "world \<Rightarrow> world \<Rightarrow> event list" where
  "run_events w w' = drop (length (trace w)) (trace w')"

fun is_system :: "string \<Rightarrow> event \<Rightarrow> bool" where
  "is_system cmd (System c r) = (c = cmd)"
| "is_system cmd e = False"

fun is_fs_event :: "event \<Rightarrow> bool" where
  "is_fs_event (FsExists p) = True"
| "is_fs_event (FsCreateDirectory p) = True"
| "is_fs_event (FsRead p) = True"
| "is_fs_event (FsWrite p s) = True"
| "is_fs_event (FsOpenFailed p) = True"
| "is_fs_event e = False"

fun is_fs_write :: "event \<Rightarrow> bool" where
  "is_fs_write (FsWrite p s) = True"
| "is_fs_write e = False"

fun is_stderr :: "event \<Rightarrow> bool" where
  "is_stderr (Stderr s) = True"
| "is_stderr e = False"

text \<open>How often the installer and the launcher were started among some events.\<close>

definition installer_runs :: "os_env \<Rightarrow> event list \<Rightarrow> nat" where
  "installer_runs os evs = length (filter (is_system (pip_command os)) evs)"

definition launcher_runs :: "os_env \<Rightarrow> string list \<Rightarrow> event list \<Rightarrow> nat" where
  "launcher_runs os argv evs = length (filter (is_system (python_command os argv)) evs)"

text \<open>
  The revision identifier that \<^verbatim>\<open>get_git_commit_hash\<close> makes of the answer to its
  query: empty when the pipe could not be opened.
\<close>

definition revision_of :: "string option \<Rightarrow> string" where
  "revision_of reply = (case reply of None \<Rightarrow> [] | Some bytes \<Rightarrow> trim (read_pipe bytes))"

text \<open>
  The events that act on the surroundings: a command is started, a directory or a file
  is written. What is printed and what is only looked at is left out.
\<close>

fun is_effect :: "event \<Rightarrow> bool" where
  "is_effect (Popen c r) = True"
| "is_effect (System c r) = True"
| "is_effect (FsCreateDirectory p) = True"
| "is_effect (FsWrite p s) = True"
| "is_effect e = False"

definition effects :: "event list \<Rightarrow> event list" where
  "effects evs = filter is_effect evs"

text \<open>
  The state the decision of step 2 depends on, as the specification names it: the
  current revision identifier (\<open>None\<close> when it cannot be obtained, which for
  \<^verbatim>\<open>git_has_updated\<close> is an empty identifier) and the content of a marker
  (\<open>None\<close> when the file is absent; nothing can be read from a directory).
\<close>

definition current_revision :: "os_env \<Rightarrow> nat \<Rightarrow> string option" where
  "current_revision os n =
     (let h = revision_of (popen_reply os n ''git rev-parse HEAD'') in if h = [] then None else Some h)"

definition marker_content :: "filesystem \<Rightarrow> string \<Rightarrow> string option" where
  "marker_content F p =
     (case F p of None \<Rightarrow> None | Some Directory \<Rightarrow> Some [] | Some (File content) \<Rightarrow> Some content)"


text \<open>The same algorithm, comparing with the first line of the revision marker only.\<close>

definition should_install_first_line :: "bool \<Rightarrow> string option \<Rightarrow> string option \<Rightarrow> bool" where
  "should_install_first_line installed current recorded =
     (if \<not> installed then True
      else case current of
             None \<Rightarrow> False
           | Some cur \<Rightarrow> (case recorded of None \<Rightarrow> True | Some rec \<Rightarrow> trim cur \<noteq> trim (getline rec)))"

text \<open>The decision of step 2 in a file system \<open>F\<close>, for the query that is command \<open>k\<close>.\<close>

definition gate_value :: "os_env \<Rightarrow> filesystem \<Rightarrow> nat \<Rightarrow> bool" where
  "gate_value os F k =
     should_install_first_line (F (installed_marker os) \<noteq> None) (current_revision os k)
       (marker_content F (revision_marker os))"

text \<open>The file system once the \<^verbatim>\<open>temp\<close> folder has been created on demand.\<close>

definition with_temp :: "os_env \<Rightarrow> filesystem \<Rightarrow> filesystem" where
  "with_temp os F = (if F (temp_folder os) = None then F(temp_folder os \<mapsto> Directory) else F)"

text \<open>
  A marker can be written in a run that starts in the file system \<open>F\<close>: the operating
  system does not refuse its path, nothing but a directory is in the place of the
  \<^verbatim>\<open>temp\<close> folder, and the marker's path is not a directory.
\<close>

definition marker_writable :: "os_env \<Rightarrow> filesystem \<Rightarrow> string \<Rightarrow> bool" where
  "marker_writable os F p \<longleftrightarrow>
     \<not> write_refused os p
     \<and> (F (temp_folder os) = None \<or> F (temp_folder os) = Some Directory) \<and> F p \<noteq> Some Directory"

text \<open>The file system after an attempt to write \<open>s\<close> to \<open>p\<close>.\<close>

definition written :: "os_env \<Rightarrow> filesystem \<Rightarrow> string \<Rightarrow> string \<Rightarrow> filesystem" where
  "written os F p s = (if ofstream_opens os F p then F(p \<mapsto> File s) else F)"

text \<open>
  The file system after both markers have been attempted, in a run that started in
  \<open>F\<close>, and what then acts on the surroundings; \<open>reply\<close> is the answer to the revision
  query made in between.
\<close>

definition marked :: "os_env \<Rightarrow> filesystem \<Rightarrow> string option \<Rightarrow> filesystem" where
  "marked os F reply =
     written os (written os (with_temp os F) (installed_marker os) ''installed'')
       (revision_marker os) (revision_of reply)"

definition marker_effects :: "os_env \<Rightarrow> filesystem \<Rightarrow> string option \<Rightarrow> event list" where
  "marker_effects os F reply =
     (if marker_writable os F (installed_marker os)
      then [FsWrite (installed_marker os) ''installed''] else [])
     @ [Popen ''git rev-parse HEAD'' reply]
     @ (if marker_writable os F (revision_marker os)
        then [FsWrite (revision_marker os) (revision_of reply)] else [])"

text \<open>
  The number of the external command that follows the decision of step 2: the probe of
  the interpreter is command \<open>clock w\<close>, and the decision asks for the revision only
  when the installed marker exists.
\<close>

definition install_clock :: "os_env \<Rightarrow> world \<Rightarrow> nat" where
  "install_clock os w =
     (if files w (installed_marker os) = None then Suc (clock w) else Suc (Suc (clock w)))"

text \<open>What acts on the surroundings up to and including the decision of step 2.\<close>

definition gate_effects :: "os_env \<Rightarrow> world \<Rightarrow> event list" where
  "gate_effects os w =
     [Popen ''python --version'' (popen_reply os (clock w) ''python --version'')]
     @ (if files w (temp_folder os) = None then [FsCreateDirectory (temp_folder os)] else [])
     @ (if files w (installed_marker os) = None then []
        else [Popen ''git rev-parse HEAD'' (popen_reply os (Suc (clock w)) ''git rev-parse HEAD'')])"

text \<open>The world after the decision of step 2, when the probe has answered \<open>v\<close>.\<close>

definition after_gate :: "os_env \<Rightarrow> string \<Rightarrow> world \<Rightarrow> world" where
  "after_gate os v w =
     snd (should_install os (temp_folder os)
            (snd (get_temp_folder_path os
                    (emit (Stdout (''Python is installed: '' @ read_pipe v))
                       (snd (exec os ''python --version'' w))))))"

text \<open>Joining words with single spaces.\<close>

fun join_with_spaces :: "string list \<Rightarrow> string" where
  "join_with_spaces [] = []"
| "join_with_spaces [x] = x"
| "join_with_spaces (x # y # ys) = x @ '' '' @ join_with_spaces (y # ys)"

text \<open>
  What the shell of \<^verbatim>\<open>system\<close> makes of a command line is not in the source. \<open>sh_words\<close>
  gives the words of a line by the grammar of the POSIX shell (the \<^verbatim>\<open>sh -c\<close> of
  \<^verbatim>\<open>system\<close>), for the lines that are made of these characters only: letters, digits
  and \<^verbatim>\<open>/ . - _\<close>, which stand for themselves; the space, which ends a word; and the
  backslash, which makes the character after it part of a word. On every other line
  (quotes, other special characters, a backslash at the end or before a line feed, a
  reserved word of the shell in the place of the command) it is \<open>None\<close>: nothing is
  said about such a line. The first word is the command, the others are the arguments
  that the command receives.
\<close>

definition plain_char :: "char \<Rightarrow> bool" where
  "plain_char c \<longleftrightarrow>
     (48 \<le> (of_char c :: nat) \<and> (of_char c :: nat) \<le> 57)
     \<or> (65 \<le> (of_char c :: nat) \<and> (of_char c :: nat) \<le> 90)
     \<or> (97 \<le> (of_char c :: nat) \<and> (of_char c :: nat) \<le> 122)
     \<or> c = CHR ''/'' \<or> c = CHR ''.'' \<or> c = CHR ''-'' \<or> c = CHR ''_''"

text \<open>\<open>cur\<close> is the word that is being read, \<open>None\<close> between words.\<close>

fun sh_scan :: "string option \<Rightarrow> string \<Rightarrow> string list option" where
  "sh_scan cur [] = Some (case cur of None \<Rightarrow> [] | Some word \<Rightarrow> [word])"
| "sh_scan cur (c # cs) =
     (if c = CHR '' '' then
        (case cur of
           None \<Rightarrow> sh_scan None cs
         | Some word \<Rightarrow> map_option (\<lambda>ws. word # ws) (sh_scan None cs))
      else if c = CHR 0x5C then
        (case cs of
           [] \<Rightarrow> None
         | d # ds \<Rightarrow>
             if d = CHR 0x0A then None
             else sh_scan (Some ((case cur of None \<Rightarrow> [] | Some word \<Rightarrow> word) @ [d])) ds)
      else if plain_char c then
        sh_scan (Some ((case cur of None \<Rightarrow> [] | Some word \<Rightarrow> word) @ [c])) cs
      else None)"

definition reserved_words :: "string list" where
  "reserved_words =
     [''case'', ''coproc'', ''do'', ''done'', ''elif'', ''else'', ''esac'', ''fi'', ''for'',
      ''function'', ''if'', ''in'', ''select'', ''then'', ''time'', ''until'', ''while'']"

definition sh_words :: "string \<Rightarrow> string list option" where
  "sh_words line =
     (case sh_scan None line of
        None \<Rightarrow> None
      | Some ws \<Rightarrow> if ws \<noteq> [] \<and> hd ws \<in> set reserved_words then None else Some ws)"

subsection \<open>Concrete surroundings\<close>

text \<open>
  An executable in \<^verbatim>\<open>/app\<close>. In \<open>os_ok\<close> the interpreter answers, the revision query
  prints \<^verbatim>\<open>abc\<close> and every command succeeds; the others differ from it in one
  answer each.
\<close>

definition os_ok :: os_env where
  "os_ok =
     \<lparr>popen_reply = (\<lambda>n c. if c = ''python --version'' then Some ''Python 3.11.4\<newline>''
                             else if c = ''git rev-parse HEAD'' then Some ''abc\<newline>'' else None),
      system_reply = (\<lambda>n c. 0),
      write_refused = (\<lambda>p. False),
      executable_directory = ''/app''\<rparr>"

text \<open>No pipe can be opened.\<close>

definition os_no_pipe :: os_env where
  "os_no_pipe = os_ok\<lparr>popen_reply := (\<lambda>n c. None)\<rparr>"

text \<open>
  No \<^verbatim>\<open>python\<close> on the search path: the probe's pipe opens and stays empty, and the
  shell of \<^verbatim>\<open>system\<close> reports status 127 for the script, which \<^verbatim>\<open>system\<close> returns
  as 32512.
\<close>

definition os_python_missing :: os_env where
  "os_python_missing =
     os_ok\<lparr>popen_reply := (\<lambda>n c. if c = ''python --version'' then Some []
                                     else if c = ''git rev-parse HEAD'' then Some ''abc\<newline>'' else None),
           system_reply := (\<lambda>n c. if c = ''pip install -r /app/src/requirements.txt'' then 0 else 32512)\<rparr>"

definition os_pip_fails :: os_env where
  "os_pip_fails =
     os_ok\<lparr>system_reply := (\<lambda>n c. if c = ''pip install -r /app/src/requirements.txt'' then 3 else 0)\<rparr>"

definition os_script_fails :: os_env where
  "os_script_fails =
     os_ok\<lparr>system_reply := (\<lambda>n c. if c = ''pip install -r /app/src/requirements.txt'' then 0 else 3)\<rparr>"

definition os_two_lines :: os_env where
  "os_two_lines =
     os_ok\<lparr>popen_reply := (\<lambda>n c. if c = ''python --version'' then Some ''Python 3.11.4\<newline>''
                                    else if c = ''git rev-parse HEAD'' then Some ''a\<newline>b\<newline>'' else None)\<rparr>"

text \<open>The revision query answers \<^verbatim>\<open>abc\<close> as command 1 and cannot be started later.\<close>

definition os_git_vanishes :: os_env where
  "os_git_vanishes =
     os_ok\<lparr>popen_reply := (\<lambda>n c. if c = ''python --version'' then Some ''Python 3.11.4\<newline>''
                                    else if c = ''git rev-parse HEAD'' \<and> n = 1 then Some ''abc\<newline>'' else None)\<rparr>"

definition fresh_world :: world where
  "fresh_world = \<lparr>files = Map.empty, clock = 0, trace = []\<rparr>"

text \<open>Both markers present; the recorded revision is \<open>recorded\<close>.\<close>

definition installed_world :: "string \<Rightarrow> world" where
  "installed_world recorded =
     \<lparr>files = [''/app/temp'' \<mapsto> Directory,
                ''/app/temp/.installed'' \<mapsto> File ''installed'',
                ''/app/temp/.git_last_commit'' \<mapsto> File recorded],
      clock = 0, trace = []\<rparr>"

text \<open>The installed marker is present; a directory is in the place of the revision marker.\<close>

definition marker_directory_world :: world where
  "marker_directory_world =
     \<lparr>files = [''/app/temp'' \<mapsto> Directory,
                ''/app/temp/.installed'' \<mapsto> File ''installed'',
                ''/app/temp/.git_last_commit'' \<mapsto> Directory],
      clock = 0, trace = []\<rparr>"

text \<open>
  An empty \<^verbatim>\<open>temp\<close> folder in which the operating system lets nothing be written; the
  revision query cannot be started after the installation.
\<close>

definition os_read_only :: os_env where
  "os_read_only = os_git_vanishes\<lparr>write_refused := (\<lambda>p. True)\<rparr>"

definition empty_temp_world :: world where
  "empty_temp_world = \<lparr>files = [''/app/temp'' \<mapsto> Directory], clock = 0, trace = []\<rparr>"

section \<open>Properties\<close>

subsection \<open>Strings and paths\<close>

lemma dropWhile_trim: "dropWhile isspace (trim s) = trim s"
proof -
  define a where "a = dropWhile isspace s"
  define t where "t = rev (dropWhile isspace (rev a))"
  have ta: "a = t @ rev (takeWhile isspace (rev a))"
    unfolding t_def by (metis rev_append rev_rev_ident takeWhile_dropWhile_id)
  have "dropWhile isspace t = t"
  proof (cases t)
    case Nil
    then show ?thesis by simp
  next
    case (Cons x xs)
    obtain z where "a = (x # xs) @ z" using ta Cons by metis
    then have "a \<noteq> []" "hd a = x" by simp_all
    then have "\<not> isspace x" unfolding a_def using hd_dropWhile by metis
    with Cons show ?thesis by simp
  qed
  then show ?thesis by (simp add: trim_def a_def t_def)
qed

lemma trim_idem: "trim (trim s) = trim s"
proof -
  have "trim (trim s) = rev (dropWhile isspace (rev (trim s)))"
    by (simp add: trim_def [of "trim s"] dropWhile_trim)
  also have "\<dots> = trim s" by (simp add: trim_def)
  finally show ?thesis .
qed


lemma append_arguments_eq: "append_arguments cmd as = cmd @ concat (map (\<lambda>a. '' '' @ a) as)"
  by (induction as arbitrary: cmd) auto

lemma pip_neq_python [simp]:
  "pip_command os \<noteq> python_command os argv" "python_command os argv \<noteq> pip_command os"
  by (auto simp: pip_command_def python_command_def append_arguments_eq)


lemma join_with_spaces_eq: "join_with_spaces (x # xs) = x @ concat (map (\<lambda>a. '' '' @ a) xs)"
  by (induction xs arbitrary: x) simp_all

lemma plain_not_special: "plain_char c \<Longrightarrow> c \<noteq> CHR '' '' \<and> c \<noteq> CHR 0x5C"
  by (auto simp: plain_char_def)

lemma sh_scan_word:
  "list_all plain_char u \<Longrightarrow>
     sh_scan (Some word) (u @ rest) = sh_scan (Some (word @ u)) rest"
proof (induction u arbitrary: word)
  case Nil
  then show ?case by simp
next
  case (Cons c u)
  then have "plain_char c" "list_all plain_char u" by simp_all
  with Cons.IH [of "word @ [c]"] plain_not_special [of c] show ?case by simp
qed

lemma sh_scan_start:
  "list_all plain_char u \<Longrightarrow> u \<noteq> [] \<Longrightarrow> sh_scan None (u @ rest) = sh_scan (Some u) rest"
proof (cases u)
  case Nil
  then show "u \<noteq> [] \<Longrightarrow> ?thesis" by simp
next
  case (Cons c u')
  assume "list_all plain_char u"
  with Cons have "plain_char c" "list_all plain_char u'" by simp_all
  with sh_scan_word [of u' "[c]" rest] plain_not_special [of c] Cons show ?thesis by simp
qed

lemma sh_scan_arguments:
  "list_all (list_all plain_char) args \<Longrightarrow>
     sh_scan None (concat (map (\<lambda>a. '' '' @ a) args)) = Some (filter (\<lambda>a. a \<noteq> []) args)
   \<and> sh_scan (Some word) (concat (map (\<lambda>a. '' '' @ a) args)) = Some (word # filter (\<lambda>a. a \<noteq> []) args)"
proof (induction args arbitrary: word)
  case Nil
  show ?case by simp
next
  case (Cons a args)
  then have a: "list_all plain_char a" and rest: "list_all (list_all plain_char) args" by simp_all
  note IH = Cons.IH [OF rest]
  have none: "sh_scan None (concat (map (\<lambda>a. '' '' @ a) (a # args))) = Some (filter (\<lambda>a. a \<noteq> []) (a # args))"
  proof (cases "a = []")
    case True
    then show ?thesis using IH by simp
  next
    case False
    with sh_scan_start [OF a False] IH show ?thesis by simp
  qed
  moreover have "sh_scan (Some word) (concat (map (\<lambda>a. '' '' @ a) (a # args))) =
      map_option (\<lambda>ws. word # ws) (sh_scan None (concat (map (\<lambda>a. '' '' @ a) (a # args))))"
  proof (cases "a = []")
    case True
    then show ?thesis by simp
  next
    case False
    then show ?thesis using sh_scan_start [OF a False] by simp
  qed
  ultimately show ?case by simp
qed

lemma sh_words_command:
  assumes "list_all plain_char (python_script os)" and "list_all (list_all plain_char) (drop 1 argv)"
  shows "sh_words (python_command os argv) =
           Some (''python'' # python_script os # filter (\<lambda>a. a \<noteq> []) (drop 1 argv))"
proof -
  have ne: "python_script os \<noteq> []"
    by (simp add: python_script_def path_append_def)
  have "python_command os argv =
          ''python'' @ '' '' @ python_script os @ concat (map (\<lambda>a. '' '' @ a) (drop 1 argv))"
    by (simp add: python_command_def append_arguments_eq)
  moreover have "list_all plain_char ''python''" by (simp add: plain_char_def)
  ultimately show ?thesis
    using sh_scan_start [of "''python''"] sh_scan_start [OF assms(1) ne]
      sh_scan_arguments [OF assms(2), of "python_script os"]
    by (simp add: sh_words_def reserved_words_def)
qed

declare read_pipe.simps [simp del]

lemma effects_simps [simp]:
  "effects [] = []"
  "effects (e # evs) = (if is_effect e then e # effects evs else effects evs)"
  "effects (xs @ ys) = effects xs @ effects ys"
  by (simp_all add: effects_def)

lemma is_system_effect: "is_system c e \<Longrightarrow> is_effect e"
  by (cases e) simp_all

lemma filter_is_system_effects: "filter (is_system c) (effects evs) = filter (is_system c) evs"
  by (induction evs) (auto dest: is_system_effect)

lemma mem_effects: "is_effect e \<Longrightarrow> e \<in> set (effects evs) \<longleftrightarrow> e \<in> set evs"
  by (simp add: effects_def)

lemma gate_effects_no_system [simp]:
  "System c r \<notin> set (gate_effects os w)" "filter (is_system c) (gate_effects os w) = []"
  by (simp_all add: gate_effects_def)

lemma is_fs_write_effect: "is_fs_write e \<Longrightarrow> is_effect e"
  by (cases e) simp_all

lemma filter_is_fs_write_effects: "filter is_fs_write (effects evs) = filter is_fs_write evs"
  by (induction evs) (auto dest: is_fs_write_effect)

lemma gate_effects_no_write [simp]: "filter is_fs_write (gate_effects os w) = []"
  by (simp add: gate_effects_def)

lemma marker_effects_no_system [simp]:
  "System c r \<notin> set (marker_effects os F reply)" "filter (is_system c) (marker_effects os F reply) = []"
  by (simp_all add: marker_effects_def)

lemma marker_effects_probe [simp]:
  "Popen ''git rev-parse HEAD'' reply \<in> set (marker_effects os F reply)"
  by (simp add: marker_effects_def)

lemma emit_simps [simp]:
  "files (emit e w) = files w" "clock (emit e w) = clock w" "trace (emit e w) = trace w @ [e]"
  by (simp_all add: emit_def)

lemma trim_Nil [simp]: "trim [] = []"
  by (simp add: trim_def)

lemma getline_Nil [simp]: "getline [] = []"
  by (simp add: getline_def)

lemma trim_revision_of [simp]: "trim (revision_of reply) = revision_of reply"
  by (simp add: revision_of_def trim_idem split: option.splits)

lemma path_append_eq: "path_append p n = p @ (if p = [] \<or> last p = CHR ''/'' then [] else ''/'') @ n"
  by (simp add: path_append_def)

lemma marker_paths [simp]:
  "installed_marker os \<noteq> revision_marker os" "revision_marker os \<noteq> installed_marker os"
  "installed_marker os \<noteq> temp_folder os" "temp_folder os \<noteq> installed_marker os"
  "revision_marker os \<noteq> temp_folder os" "temp_folder os \<noteq> revision_marker os"
  by (auto simp: installed_marker_def revision_marker_def path_append_eq [of "temp_folder os"])

lemma temp_folder_eq: "\<exists>d. temp_folder os = d @ ''temp''"
  by (auto simp: temp_folder_def path_append_def)

lemma parent_path_entry:
  assumes "CHR ''/'' \<notin> set n" and "t \<noteq> []" and "last t \<noteq> CHR ''/''"
  shows "parent_path (path_append t n) = t"
proof -
  have p: "path_append t n = t @ ''/'' @ n" using assms by (simp add: path_append_def)
  have "dropWhile (\<lambda>c. c \<noteq> CHR ''/'') (rev n @ CHR ''/'' # rev t) =
          dropWhile (\<lambda>c. c \<noteq> CHR ''/'') (CHR ''/'' # rev t)"
    using assms(1) by (intro dropWhile_append2) auto
  then have "dropWhile (\<lambda>c. c \<noteq> CHR ''/'') (rev (t @ ''/'' @ n)) = CHR ''/'' # rev t"
    by simp
  moreover have "dropWhile (\<lambda>c. c = CHR ''/'') (CHR ''/'' # rev t) = rev t"
    using assms(2,3) by (cases t rule: rev_cases) simp_all
  ultimately show ?thesis using assms(2) by (simp add: parent_path_def p)
qed

lemma parent_path_markers [simp]:
  "parent_path (installed_marker os) = temp_folder os"
  "parent_path (revision_marker os) = temp_folder os"
proof -
  obtain d where d: "temp_folder os = d @ ''temp''" using temp_folder_eq by blast
  then have "temp_folder os \<noteq> []" "last (temp_folder os) \<noteq> CHR ''/''" by simp_all
  then show "parent_path (installed_marker os) = temp_folder os"
    "parent_path (revision_marker os) = temp_folder os"
    by (simp_all add: installed_marker_def revision_marker_def parent_path_entry)
qed

lemma with_temp_simps [simp]:
  "with_temp os F (installed_marker os) = F (installed_marker os)"
  "with_temp os F (revision_marker os) = F (revision_marker os)"
  "with_temp os F (temp_folder os) \<noteq> None"
  "with_temp os (with_temp os F) = with_temp os F"
  by (auto simp: with_temp_def)

lemma exec_simps [simp]:
  "fst (exec os cmd w) =
     (case popen_reply os (clock w) cmd of
        None \<Rightarrow> Inl (Runtime_error ''popen() failed!'')
      | Some bytes \<Rightarrow> Inr (read_pipe bytes))"
  "files (snd (exec os cmd w)) = files w"
  "clock (snd (exec os cmd w)) = Suc (clock w)"
  "trace (snd (exec os cmd w)) = trace w @ [Popen cmd (popen_reply os (clock w) cmd)]"
  by (simp_all add: exec_def Let_def split: option.splits)

lemma system_simps [simp]:
  "fst (system os cmd w) = system_reply os (clock w) cmd"
  "files (snd (system os cmd w)) = files w"
  "clock (snd (system os cmd w)) = Suc (clock w)"
  "trace (snd (system os cmd w)) = trace w @ [System cmd (system_reply os (clock w) cmd)]"
  by (simp_all add: system_def Let_def)

lemma get_git_commit_hash_simps [simp]:
  "fst (get_git_commit_hash os w) = revision_of (popen_reply os (clock w) ''git rev-parse HEAD'')"
  "files (snd (get_git_commit_hash os w)) = files w"
  "clock (snd (get_git_commit_hash os w)) = Suc (clock w)"
  by (simp_all add: get_git_commit_hash_def revision_of_def prod.case_eq_if Let_def split: sum.splits option.splits)

lemma get_git_commit_hash_trace:
  "\<exists>e. trace (snd (get_git_commit_hash os w)) =
         trace w @ [Popen ''git rev-parse HEAD'' (popen_reply os (clock w) ''git rev-parse HEAD''), e]
       \<and> \<not> is_effect e"
  by (simp add: get_git_commit_hash_def prod.case_eq_if Let_def split: sum.splits option.splits)

lemma get_temp_folder_path_simps [simp]:
  "fst (get_temp_folder_path os w) = temp_folder os"
  "files (snd (get_temp_folder_path os w)) = with_temp os (files w)"
  "clock (snd (get_temp_folder_path os w)) = clock w"
  by (simp_all add: get_temp_folder_path_def temp_folder_def with_temp_def fs_exists_def create_directory_def Let_def)

lemma get_temp_folder_path_trace:
  "\<exists>evs. trace (snd (get_temp_folder_path os w)) = trace w @ evs
     \<and> effects evs = (if files w (temp_folder os) = None then [FsCreateDirectory (temp_folder os)] else [])"
  by (simp add: get_temp_folder_path_def temp_folder_def fs_exists_def create_directory_def Let_def)

lemma should_install_simps [simp]:
  "fst (should_install os (temp_folder os) w) = gate_value os (files w) (clock w)"
  "files (snd (should_install os (temp_folder os) w)) = files w"
  "clock (snd (should_install os (temp_folder os) w)) =
     (if files w (installed_marker os) = None then clock w else Suc (clock w))"
  by (auto simp add: should_install_def is_first_time_installed_def fs_exists_def Let_def
        gate_value_def should_install_first_line_def installed_marker_def revision_marker_def
        git_has_updated_def current_revision_def marker_content_def ifstream_getline_def
        prod.case_eq_if split: option.splits node.splits)

lemma should_install_trace:
  "\<exists>evs. trace (snd (should_install os (temp_folder os) w)) = trace w @ evs
     \<and> effects evs = (if files w (installed_marker os) = None then []
                       else [Popen ''git rev-parse HEAD'' (popen_reply os (clock w) ''git rev-parse HEAD'')])"
proof -
  define w1 where "w1 = snd (is_first_time_installed (temp_folder os) w)"
  obtain e where e: "trace (snd (get_git_commit_hash os w1)) =
         trace w1 @ [Popen ''git rev-parse HEAD'' (popen_reply os (clock w1) ''git rev-parse HEAD''), e]"
       "\<not> is_effect e"
    using get_git_commit_hash_trace by blast
  have t1: "\<exists>evs. trace w1 = trace w @ evs \<and> effects evs = []" and c1: "clock w1 = clock w"
    by (simp_all add: w1_def is_first_time_installed_def fs_exists_def Let_def)
  then obtain evs where evs: "trace w1 = trace w @ evs" "effects evs = []" by blast
  have f: "fst (is_first_time_installed (temp_folder os) w) = (files w (installed_marker os) = None)"
    by (simp add: is_first_time_installed_def fs_exists_def Let_def installed_marker_def)
  show ?thesis
    using e evs c1 f
    by (simp add: should_install_def w1_def [symmetric] git_has_updated_def fs_exists_def
        ifstream_getline_def Let_def prod.case_eq_if)
qed

lemma ofstream_write_simps [simp]:
  "files (ofstream_write os p s w) = written os (files w) p s"
  "clock (ofstream_write os p s w) = clock w"
  by (simp_all add: ofstream_write_def written_def)

lemma ofstream_write_trace:
  "\<exists>e. trace (ofstream_write os p s w) = trace w @ [e]
     \<and> effects [e] = (if ofstream_opens os (files w) p then [FsWrite p s] else [])"
  by (simp add: ofstream_write_def)

lemma ofstream_opens_markers [simp]:
  "ofstream_opens os (with_temp os F) (installed_marker os) = marker_writable os F (installed_marker os)"
  "ofstream_opens os (with_temp os F) (revision_marker os) = marker_writable os F (revision_marker os)"
  "ofstream_opens os (written os (with_temp os F) (installed_marker os) s) (revision_marker os)
     = marker_writable os F (revision_marker os)"
  by (auto simp: ofstream_opens_def marker_writable_def with_temp_def written_def)

lemma mark_update_simps [simp]:
  "files (update_git_commit_hash os (temp_folder os) (mark_as_installed os (temp_folder os) w)) =
     written os (written os (files w) (installed_marker os) ''installed'') (revision_marker os)
       (revision_of (popen_reply os (clock w) ''git rev-parse HEAD''))"
  "clock (update_git_commit_hash os (temp_folder os) (mark_as_installed os (temp_folder os) w)) = Suc (clock w)"
  by (simp_all add: update_git_commit_hash_def mark_as_installed_def Let_def
      prod.case_eq_if installed_marker_def revision_marker_def)

lemma mark_update_trace:
  "\<exists>evs. trace (update_git_commit_hash os (temp_folder os) (mark_as_installed os (temp_folder os) w)) =
           trace w @ evs
     \<and> effects evs =
         (if ofstream_opens os (files w) (installed_marker os)
          then [FsWrite (installed_marker os) ''installed''] else [])
         @ [Popen ''git rev-parse HEAD'' (popen_reply os (clock w) ''git rev-parse HEAD'')]
         @ (if ofstream_opens os (written os (files w) (installed_marker os) ''installed'') (revision_marker os)
            then [FsWrite (revision_marker os)
                    (revision_of (popen_reply os (clock w) ''git rev-parse HEAD''))]
            else [])"
proof -
  define w0 where "w0 = ofstream_write os (installed_marker os) ''installed'' w"
  define w1 where "w1 = mark_as_installed os (temp_folder os) w"
  obtain e1 where e1: "trace w0 = trace w @ [e1]"
    "effects [e1] = (if ofstream_opens os (files w) (installed_marker os)
                     then [FsWrite (installed_marker os) ''installed''] else [])"
    unfolding w0_def using ofstream_write_trace by blast
  have w1: "trace w1 = trace w @ [e1, Stdout ''Marked application as installed.\<newline>'']"
    "clock w1 = clock w" "files w1 = written os (files w) (installed_marker os) ''installed''"
    using e1(1)
    by (simp_all add: w1_def w0_def mark_as_installed_def Let_def installed_marker_def)
  define w2 where "w2 = snd (get_git_commit_hash os w1)"
  obtain e where e: "trace w2 =
         trace w1 @ [Popen ''git rev-parse HEAD'' (popen_reply os (clock w1) ''git rev-parse HEAD''), e]"
       "\<not> is_effect e"
    unfolding w2_def using get_git_commit_hash_trace by blast
  have f2: "files w2 = files w1" by (simp add: w2_def)
  define h where "h = revision_of (popen_reply os (clock w) ''git rev-parse HEAD'')"
  obtain e2 where e2: "trace (ofstream_write os (revision_marker os) h w2) = trace w2 @ [e2]"
    "effects [e2] = (if ofstream_opens os (files w2) (revision_marker os)
                     then [FsWrite (revision_marker os) h] else [])"
    using ofstream_write_trace by blast
  have "update_git_commit_hash os (temp_folder os) w1 =
          emit (Stdout (''Updated git commit hash to: '' @ h @ ''\<newline>''))
            (ofstream_write os (revision_marker os) h w2)"
    by (simp add: update_git_commit_hash_def prod.case_eq_if Let_def revision_marker_def w2_def h_def w1(2))
  then have "trace (update_git_commit_hash os (temp_folder os) w1) =
          trace w @ [e1, Stdout ''Marked application as installed.\<newline>'',
                     Popen ''git rev-parse HEAD'' (popen_reply os (clock w) ''git rev-parse HEAD''), e, e2,
                     Stdout (''Updated git commit hash to: '' @ h @ ''\<newline>'')]"
    using e(1) e2(1) w1(1,2) by simp
  moreover have "effects [e1, Stdout ''Marked application as installed.\<newline>'',
                     Popen ''git rev-parse HEAD'' (popen_reply os (clock w) ''git rev-parse HEAD''), e, e2,
                     Stdout (''Updated git commit hash to: '' @ h @ ''\<newline>'')] =
         (if ofstream_opens os (files w) (installed_marker os)
          then [FsWrite (installed_marker os) ''installed''] else [])
         @ [Popen ''git rev-parse HEAD'' (popen_reply os (clock w) ''git rev-parse HEAD'')]
         @ (if ofstream_opens os (written os (files w) (installed_marker os) ''installed'') (revision_marker os)
            then [FsWrite (revision_marker os) h] else [])"
    using e1(2) e2(2) e(2) by (auto simp: f2 w1(3) split: if_splits)
  ultimately show ?thesis unfolding w1_def h_def by blast
qed

lemma launch_simps [simp]:
  "fst (launch os argv w) = (if system_reply os (clock w) (python_command os argv) = 0 then 0 else 1)"
  "files (snd (launch os argv w)) = files w"
  "clock (snd (launch os argv w)) = Suc (clock w)"
  by (simp_all add: launch_def Let_def prod.case_eq_if)

lemma launch_trace:
  "\<exists>e0 e. trace (snd (launch os argv w)) =
         trace w @ [e0, System (python_command os argv) (system_reply os (clock w) (python_command os argv)), e]
       \<and> \<not> is_effect e0 \<and> \<not> is_effect e
       \<and> (is_stderr e \<longleftrightarrow> system_reply os (clock w) (python_command os argv) \<noteq> 0)"
  by (simp add: launch_def Let_def prod.case_eq_if)

subsection \<open>The paths through \<^verbatim>\<open>main\<close>\<close>

lemma gate_value_with_temp [simp]: "gate_value os (with_temp os F) k = gate_value os F k"
  by (simp add: gate_value_def marker_content_def)

lemma main_probe_failed:
  assumes "popen_reply os (clock w) ''python --version'' = None"
  shows "fst (main os argv w) = 1"
    and "files (snd (main os argv w)) = files w"
    and "clock (snd (main os argv w)) = Suc (clock w)"
    and "trace (snd (main os argv w)) =
           trace w @ [Popen ''python --version'' None,
                      Stderr ''Error: Python is not installed or not in PATH.\<newline>'']"
  using assms by (simp_all add: main_def exec_def Let_def)

lemma gate_world:
  assumes "popen_reply os (clock w) ''python --version'' = Some v"
  defines "w2 \<equiv> after_gate os v w"
  shows "files w2 = with_temp os (files w)"
    and "clock w2 = install_clock os w"
    and "\<exists>pre. trace w2 = trace w @ pre \<and> effects pre = gate_effects os w"
proof -
  define w0 where "w0 = emit (Stdout (''Python is installed: '' @ read_pipe v)) (snd (exec os ''python --version'' w))"
  define w1 where "w1 = snd (get_temp_folder_path os w0)"
  have w2: "w2 = snd (should_install os (temp_folder os) w1)" by (simp add: w2_def after_gate_def w1_def w0_def)
  have t0: "trace w0 = trace w @ [Popen ''python --version'' (popen_reply os (clock w) ''python --version''),
                 Stdout (''Python is installed: '' @ read_pipe v)]"
    and f0: "files w0 = files w" and c0: "clock w0 = Suc (clock w)"
    by (simp_all add: w0_def)
  obtain evs1 where t1: "trace w1 = trace w0 @ evs1"
    "effects evs1 = (if files w0 (temp_folder os) = None then [FsCreateDirectory (temp_folder os)] else [])"
    unfolding w1_def using get_temp_folder_path_trace by blast
  have f1: "files w1 = with_temp os (files w)" and c1: "clock w1 = Suc (clock w)"
    by (simp_all add: w1_def f0 c0)
  obtain evs2 where t2: "trace w2 = trace w1 @ evs2"
    "effects evs2 = (if files w1 (installed_marker os) = None then []
                       else [Popen ''git rev-parse HEAD'' (popen_reply os (clock w1) ''git rev-parse HEAD'')])"
    unfolding w2 using should_install_trace by blast
  show "files w2 = with_temp os (files w)" by (simp add: w2 f1)
  show "clock w2 = install_clock os w" by (simp add: w2 f1 c1 install_clock_def)
  show "\<exists>pre. trace w2 = trace w @ pre \<and> effects pre = gate_effects os w"
    using t0 t1 t2 by (simp add: f0 f1 c1 gate_effects_def)
qed

lemma main_gate:
  assumes "popen_reply os (clock w) ''python --version'' = Some v"
  defines "w2 \<equiv> after_gate os v w"
  shows "main os argv w =
     (if gate_value os (files w) (Suc (clock w))
      then (if system_reply os (clock w2) (pip_command os) \<noteq> 0
            then (1, emit (Stderr ''Error: Failed to install requirements.\<newline>'')
                       (snd (system os (pip_command os) (emit (Stdout ''Installing requirements...\<newline>'') w2))))
            else launch os argv
                   (update_git_commit_hash os (temp_folder os)
                      (mark_as_installed os (temp_folder os)
                         (snd (system os (pip_command os) (emit (Stdout ''Installing requirements...\<newline>'') w2))))))
      else launch os argv
             (emit (Stdout ''Requirements already installed. Skipping installation...\<newline>'') w2))"
  using assms(1) unfolding w2_def after_gate_def
  by (simp add: main_def install_and_launch_def prod.case_eq_if bool.case_eq_if split: sum.splits)

lemma main_skipped:
  fixes argv :: "string list"
  assumes probe: "popen_reply os (clock w) ''python --version'' = Some v"
      and gate: "\<not> gate_value os (files w) (Suc (clock w))"
  defines "r \<equiv> system_reply os (install_clock os w) (python_command os argv)"
  shows "fst (main os argv w) = (if r = 0 then 0 else 1)"
    and "files (snd (main os argv w)) = with_temp os (files w)"
    and "clock (snd (main os argv w)) = Suc (install_clock os w)"
    and "\<exists>pre e. trace (snd (main os argv w)) = trace w @ pre @ [System (python_command os argv) r, e]
           \<and> effects pre = gate_effects os w \<and> \<not> is_effect e \<and> (is_stderr e \<longleftrightarrow> r \<noteq> 0)"
proof -
  define w2 where "w2 = after_gate os v w"
  define w3 where "w3 = emit (Stdout ''Requirements already installed. Skipping installation...\<newline>'') w2"
  have m: "main os argv w = launch os argv w3"
    using main_gate [OF probe, of argv] gate by (simp add: w2_def w3_def)
  have f2: "files w2 = with_temp os (files w)" and c2: "clock w2 = install_clock os w"
    using gate_world [OF probe] by (simp_all add: w2_def)
  obtain pre where pre: "trace w2 = trace w @ pre" "effects pre = gate_effects os w"
    using gate_world(3) [OF probe] unfolding w2_def by blast
  obtain e0 e where l: "trace (snd (launch os argv w3)) =
         trace w3 @ [e0, System (python_command os argv) (system_reply os (clock w3) (python_command os argv)), e]"
       "\<not> is_effect e0" "\<not> is_effect e"
       "is_stderr e \<longleftrightarrow> system_reply os (clock w3) (python_command os argv) \<noteq> 0"
    using launch_trace by blast
  show "fst (main os argv w) = (if r = 0 then 0 else 1)" by (simp add: m w3_def c2 r_def)
  show "files (snd (main os argv w)) = with_temp os (files w)" by (simp add: m w3_def f2)
  show "clock (snd (main os argv w)) = Suc (install_clock os w)" by (simp add: m w3_def c2)
  have "trace (snd (main os argv w)) =
          trace w @ (pre @ [Stdout ''Requirements already installed. Skipping installation...\<newline>'', e0])
            @ [System (python_command os argv) r, e]"
    using l(1) pre(1) by (simp add: m w3_def c2 r_def)
  moreover have "effects (pre @ [Stdout ''Requirements already installed. Skipping installation...\<newline>'', e0])
                   = gate_effects os w"
    using pre(2) l(2) by simp
  moreover have "is_stderr e \<longleftrightarrow> r \<noteq> 0" using l(4) by (simp add: w3_def c2 r_def)
  ultimately show "\<exists>pre e. trace (snd (main os argv w)) = trace w @ pre @ [System (python_command os argv) r, e]
           \<and> effects pre = gate_effects os w \<and> \<not> is_effect e \<and> (is_stderr e \<longleftrightarrow> r \<noteq> 0)"
    using l(3) by blast
qed

lemma main_install_failed:
  assumes probe: "popen_reply os (clock w) ''python --version'' = Some v"
      and gate: "gate_value os (files w) (Suc (clock w))"
      and pip: "system_reply os (install_clock os w) (pip_command os) \<noteq> 0"
  shows "fst (main os argv w) = 1"
    and "files (snd (main os argv w)) = with_temp os (files w)"
    and "clock (snd (main os argv w)) = Suc (install_clock os w)"
    and "\<exists>pre. trace (snd (main os argv w)) =
            trace w @ pre @ [System (pip_command os) (system_reply os (install_clock os w) (pip_command os)),
                             Stderr ''Error: Failed to install requirements.\<newline>'']
           \<and> effects pre = gate_effects os w"
proof -
  define w2 where "w2 = after_gate os v w"
  have f2: "files w2 = with_temp os (files w)" and c2: "clock w2 = install_clock os w"
    using gate_world [OF probe] by (simp_all add: w2_def)
  have m: "main os argv w =
     (1, emit (Stderr ''Error: Failed to install requirements.\<newline>'')
                       (snd (system os (pip_command os) (emit (Stdout ''Installing requirements...\<newline>'') w2))))"
    using main_gate [OF probe, of argv] gate pip by (simp add: w2_def [symmetric] c2 del: system_simps)
  obtain pre where pre: "trace w2 = trace w @ pre" "effects pre = gate_effects os w"
    using gate_world(3) [OF probe] unfolding w2_def by blast
  show "fst (main os argv w) = 1" by (simp add: m)
  show "files (snd (main os argv w)) = with_temp os (files w)" by (simp add: m f2)
  show "clock (snd (main os argv w)) = Suc (install_clock os w)" by (simp add: m c2)
  have "trace (snd (main os argv w)) =
            trace w @ (pre @ [Stdout ''Installing requirements...\<newline>''])
              @ [System (pip_command os) (system_reply os (install_clock os w) (pip_command os)),
                             Stderr ''Error: Failed to install requirements.\<newline>'']"
    using pre(1) by (simp add: m c2)
  moreover have "effects (pre @ [Stdout ''Installing requirements...\<newline>'']) = gate_effects os w"
    using pre(2) by simp
  ultimately show "\<exists>pre. trace (snd (main os argv w)) =
            trace w @ pre @ [System (pip_command os) (system_reply os (install_clock os w) (pip_command os)),
                             Stderr ''Error: Failed to install requirements.\<newline>'']
           \<and> effects pre = gate_effects os w"
    by blast
qed

lemma main_installed:
  fixes argv :: "string list"
  assumes probe: "popen_reply os (clock w) ''python --version'' = Some v"
      and gate: "gate_value os (files w) (Suc (clock w))"
      and pip: "system_reply os (install_clock os w) (pip_command os) = 0"
  defines "reply \<equiv> popen_reply os (Suc (install_clock os w)) ''git rev-parse HEAD''"
      and "r \<equiv> system_reply os (Suc (Suc (install_clock os w))) (python_command os argv)"
  shows "fst (main os argv w) = (if r = 0 then 0 else 1)"
    and "files (snd (main os argv w)) = marked os (files w) reply"
    and "clock (snd (main os argv w)) = Suc (Suc (Suc (install_clock os w)))"
    and "\<exists>pre mid e. trace (snd (main os argv w)) =
            trace w @ pre @ [System (pip_command os) 0] @ mid @ [System (python_command os argv) r, e]
           \<and> effects pre = gate_effects os w
           \<and> effects mid = marker_effects os (files w) reply
           \<and> \<not> is_effect e \<and> (is_stderr e \<longleftrightarrow> r \<noteq> 0)"
proof -
  define w2 where "w2 = after_gate os v w"
  define w3 where "w3 = snd (system os (pip_command os) (emit (Stdout ''Installing requirements...\<newline>'') w2))"
  define w4 where "w4 = update_git_commit_hash os (temp_folder os) (mark_as_installed os (temp_folder os) w3)"
  have f2: "files w2 = with_temp os (files w)" and c2: "clock w2 = install_clock os w"
    using gate_world [OF probe] by (simp_all add: w2_def)
  have m: "main os argv w = launch os argv w4"
    using main_gate [OF probe, of argv] gate pip by (simp add: w2_def [symmetric] c2 w3_def w4_def)
  obtain pre where pre: "trace w2 = trace w @ pre" "effects pre = gate_effects os w"
    using gate_world(3) [OF probe] unfolding w2_def by blast
  have f3: "files w3 = with_temp os (files w)" and c3: "clock w3 = Suc (install_clock os w)"
    and t3: "trace w3 = trace w @ pre @ [Stdout ''Installing requirements...\<newline>'', System (pip_command os) 0]"
    using pip pre(1) by (simp_all add: w3_def f2 c2)
  obtain mid where mid: "trace w4 = trace w3 @ mid"
     "effects mid = marker_effects os (files w) reply"
    unfolding w4_def reply_def c3 [symmetric] marker_effects_def
    using mark_update_trace [of os w3] by (auto simp: f3)
  have f4: "files w4 = marked os (files w) reply"
    and c4: "clock w4 = Suc (Suc (install_clock os w))"
    by (simp_all add: w4_def f3 c3 reply_def marked_def)
  obtain e0 e where l: "trace (snd (launch os argv w4)) =
         trace w4 @ [e0, System (python_command os argv) (system_reply os (clock w4) (python_command os argv)), e]"
       "\<not> is_effect e0" "\<not> is_effect e"
       "is_stderr e \<longleftrightarrow> system_reply os (clock w4) (python_command os argv) \<noteq> 0"
    using launch_trace by blast
  show "fst (main os argv w) = (if r = 0 then 0 else 1)" by (simp add: m c4 r_def)
  show "files (snd (main os argv w)) = marked os (files w) reply"
    by (simp add: m f4)
  show "clock (snd (main os argv w)) = Suc (Suc (Suc (install_clock os w)))" by (simp add: m c4)
  have "trace (snd (main os argv w)) =
            trace w @ (pre @ [Stdout ''Installing requirements...\<newline>'']) @ [System (pip_command os) 0]
              @ (mid @ [e0]) @ [System (python_command os argv) r, e]"
    using l(1) mid(1) t3 by (simp add: m c4 r_def)
  moreover have "effects (pre @ [Stdout ''Installing requirements...\<newline>'']) = gate_effects os w"
    using pre(2) by simp
  moreover have "effects (mid @ [e0]) = marker_effects os (files w) reply"
    using mid(2) l(2) by simp
  moreover have "is_stderr e \<longleftrightarrow> r \<noteq> 0" using l(4) by (simp add: c4 r_def)
  ultimately show "\<exists>pre mid e. trace (snd (main os argv w)) =
            trace w @ pre @ [System (pip_command os) 0] @ mid @ [System (python_command os argv) r, e]
           \<and> effects pre = gate_effects os w
           \<and> effects mid = marker_effects os (files w) reply
           \<and> \<not> is_effect e \<and> (is_stderr e \<longleftrightarrow> r \<noteq> 0)"
    using l(3) by blast
qed

lemma run_events_append [simp]: "trace w' = trace w @ evs \<Longrightarrow> run_events w w' = evs"
  by (simp add: run_events_def)

lemma marked_simps:
  "marker_writable os F (installed_marker os) \<Longrightarrow>
     marked os F reply (installed_marker os) = Some (File ''installed'')"
  "marker_writable os F (revision_marker os) \<Longrightarrow>
     marked os F reply (revision_marker os) = Some (File (revision_of reply))"
  "marker_writable os F (installed_marker os) \<Longrightarrow> marked os F reply (installed_marker os) \<noteq> None"
  by (auto simp: marked_def written_def marker_writable_def ofstream_opens_def with_temp_def)

lemma marker_effects_writable:
  "marker_writable os F (installed_marker os) \<Longrightarrow> marker_writable os F (revision_marker os) \<Longrightarrow>
     marker_effects os F reply =
       [FsWrite (installed_marker os) ''installed'', Popen ''git rev-parse HEAD'' reply,
        FsWrite (revision_marker os) (revision_of reply)]"
  by (simp add: marker_effects_def)

lemma main_effects:
  "effects (run_events w (snd (main os argv w))) =
     (case popen_reply os (clock w) ''python --version'' of
        None \<Rightarrow> [Popen ''python --version'' None]
      | Some v \<Rightarrow>
          gate_effects os w @
          (if gate_value os (files w) (Suc (clock w))
           then System (pip_command os) (system_reply os (install_clock os w) (pip_command os)) #
                (if system_reply os (install_clock os w) (pip_command os) \<noteq> 0 then []
                 else marker_effects os (files w)
                        (popen_reply os (Suc (install_clock os w)) ''git rev-parse HEAD'')
                      @ [System (python_command os argv)
                           (system_reply os (Suc (Suc (install_clock os w))) (python_command os argv))])
           else [System (python_command os argv) (system_reply os (install_clock os w) (python_command os argv))]))"
proof (cases "popen_reply os (clock w) ''python --version''")
  case None
  then show ?thesis using main_probe_failed(4) [OF None, of argv] by simp
next
  case (Some v)
  show ?thesis
  proof (cases "gate_value os (files w) (Suc (clock w))")
    case False
    from main_skipped(4) [OF Some False, of argv] Some False show ?thesis by auto
  next
    case True
    show ?thesis
    proof (cases "system_reply os (install_clock os w) (pip_command os) = 0")
      case False
      from main_install_failed(4) [OF Some True False, of argv] Some True False show ?thesis by auto
    next
      case pip: True
      from main_installed(4) [OF Some True pip, of argv] Some True pip show ?thesis by auto
    qed
  qed
qed

lemma main_status:
  "fst (main os argv w) =
     (case popen_reply os (clock w) ''python --version'' of
        None \<Rightarrow> 1
      | Some v \<Rightarrow>
          if gate_value os (files w) (Suc (clock w))
          then if system_reply os (install_clock os w) (pip_command os) \<noteq> 0 then 1
               else if system_reply os (Suc (Suc (install_clock os w))) (python_command os argv) = 0 then 0 else 1
          else if system_reply os (install_clock os w) (python_command os argv) = 0 then 0 else 1)"
proof (cases "popen_reply os (clock w) ''python --version''")
  case None
  then show ?thesis using main_probe_failed(1) [OF None, of argv] by simp
next
  case (Some v)
  show ?thesis
  proof (cases "gate_value os (files w) (Suc (clock w))")
    case False
    from main_skipped(1) [OF Some False, of argv] Some False show ?thesis by simp
  next
    case True
    show ?thesis
    proof (cases "system_reply os (install_clock os w) (pip_command os) = 0")
      case False
      from main_install_failed(1) [OF Some True False, of argv] Some True False show ?thesis by simp
    next
      case pip: True
      from main_installed(1) [OF Some True pip, of argv] Some True pip show ?thesis by simp
    qed
  qed
qed

lemma main_files:
  "files (snd (main os argv w)) =
     (case popen_reply os (clock w) ''python --version'' of
        None \<Rightarrow> files w
      | Some v \<Rightarrow>
          if gate_value os (files w) (Suc (clock w)) \<and> system_reply os (install_clock os w) (pip_command os) = 0
          then marked os (files w) (popen_reply os (Suc (install_clock os w)) ''git rev-parse HEAD'')
          else with_temp os (files w))"
proof (cases "popen_reply os (clock w) ''python --version''")
  case None
  then show ?thesis using main_probe_failed(2) [OF None, of argv] by simp
next
  case (Some v)
  show ?thesis
  proof (cases "gate_value os (files w) (Suc (clock w))")
    case False
    from main_skipped(2) [OF Some False, of argv] Some False show ?thesis by simp
  next
    case True
    show ?thesis
    proof (cases "system_reply os (install_clock os w) (pip_command os) = 0")
      case False
      from main_install_failed(2) [OF Some True False, of argv] Some True False show ?thesis by simp
    next
      case pip: True
      from main_installed(2) [OF Some True pip, of argv] Some True pip show ?thesis by simp
    qed
  qed
qed

lemma installer_ran:
  assumes "System (pip_command os) r \<in> set (run_events w (snd (main os argv w)))"
  shows "\<exists>v. popen_reply os (clock w) ''python --version'' = Some v"
    and "gate_value os (files w) (Suc (clock w))"
    and "system_reply os (install_clock os w) (pip_command os) = r"
proof -
  have "System (pip_command os) r \<in> set (effects (run_events w (snd (main os argv w))))"
    using assms by (simp add: mem_effects)
  then show "\<exists>v. popen_reply os (clock w) ''python --version'' = Some v"
    and "gate_value os (files w) (Suc (clock w))"
    and "system_reply os (install_clock os w) (pip_command os) = r"
    unfolding main_effects by (auto split: option.splits if_splits)
qed

lemma installed_run:
  assumes "main os argv w = (status, w')"
      and "System (pip_command os) 0 \<in> set (run_events w w')"
  obtains v where "popen_reply os (clock w) ''python --version'' = Some v"
    and "gate_value os (files w) (Suc (clock w))"
    and "system_reply os (install_clock os w) (pip_command os) = 0"
    and "w' = snd (main os argv w)" and "status = fst (main os argv w)"
proof -
  have w': "w' = snd (main os argv w)" and st: "status = fst (main os argv w)"
    using assms(1) by simp_all
  from installer_ran [OF assms(2) [unfolded w']] that w' st show thesis by blast
qed



subsection \<open>Evaluation on concrete surroundings\<close>

lemma ofstream_write_eval:
  "ofstream_write os p s w =
     emit (if ofstream_opens os (files w) p then FsWrite p s else FsOpenFailed p)
       (w\<lparr>files := written os (files w) p s\<rparr>)"
  by (simp add: ofstream_write_def written_def)

lemmas launcher_defs =
  main_def install_and_launch_def launch_def should_install_def is_first_time_installed_def
  git_has_updated_def update_git_commit_hash_def mark_as_installed_def get_git_commit_hash_def
  get_temp_folder_path_def get_executable_directory_def exec_def system_def emit_def fs_exists_def
  create_directory_def ofstream_write_eval ifstream_getline_def pip_command_def python_command_def
  python_script_def path_append_def run_events_def temp_folder_def installed_marker_def
  revision_marker_def ofstream_opens_def parent_path_def written_def Let_def

lemmas concrete_defs =
  os_ok_def os_no_pipe_def os_python_missing_def os_pip_fails_def os_script_fails_def os_two_lines_def
  os_git_vanishes_def fresh_world_def installed_world_def marker_directory_world_def
  os_read_only_def empty_temp_world_def

section \<open>The claims\<close>

subsection \<open>The probe of the interpreter\<close>

text \<open>
  The one failure of the probe that \<^verbatim>\<open>main\<close> notices is the exception of \<^verbatim>\<open>exec\<close>: when
  \<^verbatim>\<open>popen\<close> returns a null pipe, \<^verbatim>\<open>main\<close> prints its diagnostic to the error stream and
  exits with status 1, and the events of the run are the probe and the diagnostic:
  no install gate, no installer, no launcher.
\<close>

lemma null_pipe_fails_fast:
  assumes "popen_reply os (clock w) ''python --version'' = None"
  shows "fst (main os argv w) = 1
       \<and> run_events w (snd (main os argv w)) =
           [Popen ''python --version'' None,
            Stderr ''Error: Python is not installed or not in PATH.\<newline>'']
       \<and> installer_runs os (run_events w (snd (main os argv w))) = 0
       \<and> launcher_runs os argv (run_events w (snd (main os argv w))) = 0"
  using main_probe_failed [OF assms, of argv] by (simp add: installer_runs_def launcher_runs_def)

text \<open>
  Claim C3 says that the launcher fails fast in every run in which the interpreter
  binary is not found or not executable: a diagnostic on the error stream, a non-zero
  exit, no later step. The code does not do that. A missing interpreter does not make
  \<^verbatim>\<open>popen\<close> return a null pipe, so \<^verbatim>\<open>exec\<close> returns the empty output and step 1 passes.
  In \<open>os_python_missing\<close>, from an empty file system, the run prints
  \<^verbatim>\<open>Python is installed: \<close>, creates the \<^verbatim>\<open>temp\<close> folder, runs the installer, writes
  both markers and starts the launcher; the only diagnostic is the launcher's, and
  the diagnostic of step 1, \<^verbatim>\<open>Python is not installed or not in PATH\<close>, is not printed.
\<close>

theorem missing_interpreter_goes_unnoticed:
  "fst (main os_python_missing [''launcher''] fresh_world) = 1
   \<and> effects (run_events fresh_world (snd (main os_python_missing [''launcher''] fresh_world))) =
       [Popen ''python --version'' (Some []),
        FsCreateDirectory ''/app/temp'',
        System ''pip install -r /app/src/requirements.txt'' 0,
        FsWrite ''/app/temp/.installed'' ''installed'',
        Popen ''git rev-parse HEAD'' (Some ''abc\<newline>''),
        FsWrite ''/app/temp/.git_last_commit'' ''abc'',
        System ''python /app/src/main.py'' 32512]
   \<and> hd (run_events fresh_world (snd (main os_python_missing [''launcher''] fresh_world))) =
       Popen ''python --version'' (Some [])
   \<and> hd (tl (run_events fresh_world (snd (main os_python_missing [''launcher''] fresh_world)))) =
       Stdout ''Python is installed: ''
   \<and> filter is_stderr (run_events fresh_world (snd (main os_python_missing [''launcher''] fresh_world))) =
       [Stderr ''Error: Python script execution failed.\<newline>'']
   \<and> installer_runs os_python_missing
         (run_events fresh_world (snd (main os_python_missing [''launcher''] fresh_world))) = 1
   \<and> launcher_runs os_python_missing [''launcher'']
         (run_events fresh_world (snd (main os_python_missing [''launcher''] fresh_world))) = 1"
  by (simp add: launcher_defs concrete_defs installer_runs_def launcher_runs_def
      isspace_def trim_def read_pipe.simps)

text \<open>
  The same holds of the file system when \<^verbatim>\<open>exec\<close> throws: it is as it was, and the run
  makes no call that looks at, reads, creates or writes a file.
\<close>

lemma null_pipe_touches_no_file:
  assumes "popen_reply os (clock w) ''python --version'' = None"
  shows "fst (main os argv w) = 1
       \<and> files (snd (main os argv w)) = files w
       \<and> filter is_fs_event (run_events w (snd (main os argv w))) = []"
  using main_probe_failed [OF assms, of argv] by simp

text \<open>
  Claim C8 says that in every run in which the interpreter probe fails the launcher
  exits with status 1 before it touches the file system: no \<^verbatim>\<open>temp\<close> folder created,
  no marker read or written. The code does not do that, by the defect of claim C3: a
  probe that fails because the interpreter is missing is not noticed. In
  \<open>os_python_missing\<close>, from an empty file system, the run looks for the \<^verbatim>\<open>temp\<close> folder
  and creates it, looks for the installed marker, and writes both markers before it
  exits with status 1.
\<close>

theorem missing_interpreter_touches_files:
  "fst (main os_python_missing [''launcher''] fresh_world) = 1
   \<and> filter is_fs_event (run_events fresh_world (snd (main os_python_missing [''launcher''] fresh_world))) =
       [FsExists ''/app/temp'',
        FsCreateDirectory ''/app/temp'',
        FsExists ''/app/temp/.installed'',
        FsWrite ''/app/temp/.installed'' ''installed'',
        FsWrite ''/app/temp/.git_last_commit'' ''abc'']
   \<and> files fresh_world (temp_folder os_python_missing) = None
   \<and> files (snd (main os_python_missing [''launcher''] fresh_world)) (temp_folder os_python_missing)
       = Some Directory
   \<and> files (snd (main os_python_missing [''launcher''] fresh_world)) (installed_marker os_python_missing)
       = Some (File ''installed'')
   \<and> files (snd (main os_python_missing [''launcher''] fresh_world)) (revision_marker os_python_missing)
       = Some (File ''abc'')"
  by (simp add: launcher_defs concrete_defs isspace_def trim_def read_pipe.simps)

subsection \<open>The install gate\<close>



subsection \<open>The installer\<close>

text \<open>
  Claim C4. For every run in which the package-installation command returns a
  non-zero status, the launcher prints a diagnostic (the last thing the run does is to
  write it to the error stream) and exits with status 1; neither marker is written
  (both keep their prior state, and the run writes no file at all); and the script
  launcher is never invoked.
\<close>

theorem install_failure_aborts:
  assumes "main os argv w = (status, w')"
      and "System (pip_command os) r \<in> set (run_events w w')"
      and "r \<noteq> 0"
  shows "status = 1
       \<and> last (run_events w w') = Stderr ''Error: Failed to install requirements.\<newline>''
       \<and> files w' (installed_marker os) = files w (installed_marker os)
       \<and> files w' (revision_marker os) = files w (revision_marker os)
       \<and> filter is_fs_write (run_events w w') = []
       \<and> launcher_runs os argv (run_events w w') = 0"
proof -
  have w': "w' = snd (main os argv w)" and st: "status = fst (main os argv w)"
    using assms(1) by simp_all
  from installer_ran [OF assms(2) [unfolded w']] assms(3)
  obtain v where probe: "popen_reply os (clock w) ''python --version'' = Some v"
    and gate: "gate_value os (files w) (Suc (clock w))"
    and pip: "system_reply os (install_clock os w) (pip_command os) \<noteq> 0"
    by auto
  obtain pre where pre: "trace w' =
      trace w @ pre @ [System (pip_command os) (system_reply os (install_clock os w) (pip_command os)),
                       Stderr ''Error: Failed to install requirements.\<newline>'']"
    "effects pre = gate_effects os w"
    unfolding w' using main_install_failed(4) [OF probe gate pip] by blast
  have ev: "run_events w w' =
      pre @ [System (pip_command os) (system_reply os (install_clock os w) (pip_command os)),
             Stderr ''Error: Failed to install requirements.\<newline>'']"
    using pre(1) by simp
  have "filter is_fs_write pre = []" "filter (is_system (python_command os argv)) pre = []"
    using pre(2) filter_is_fs_write_effects [of pre] filter_is_system_effects [of _ pre] by simp_all
  then have "filter is_fs_write (run_events w w') = []" "launcher_runs os argv (run_events w w') = 0"
    by (simp_all add: ev launcher_runs_def)
  moreover have "status = 1" using main_install_failed(1) [OF probe gate pip] st by simp
  moreover have "files w' (installed_marker os) = files w (installed_marker os)"
    "files w' (revision_marker os) = files w (revision_marker os)"
    using main_install_failed(2) [OF probe gate pip] w' by simp_all
  moreover have "last (run_events w w') = Stderr ''Error: Failed to install requirements.\<newline>''"
    by (simp add: ev)
  ultimately show ?thesis by simp
qed

theorem install_failure_aborts_witness:
  "System (pip_command os_pip_fails) 3
     \<in> set (run_events fresh_world (snd (main os_pip_fails [''launcher'', ''--x'', ''1''] fresh_world)))
   \<and> fst (main os_pip_fails [''launcher'', ''--x'', ''1''] fresh_world) = 1
   \<and> last (run_events fresh_world (snd (main os_pip_fails [''launcher'', ''--x'', ''1''] fresh_world))) =
       Stderr ''Error: Failed to install requirements.\<newline>''
   \<and> files (snd (main os_pip_fails [''launcher'', ''--x'', ''1''] fresh_world)) (installed_marker os_pip_fails) = None
   \<and> files (snd (main os_pip_fails [''launcher'', ''--x'', ''1''] fresh_world)) (revision_marker os_pip_fails) = None
   \<and> filter is_fs_write (run_events fresh_world (snd (main os_pip_fails [''launcher'', ''--x'', ''1''] fresh_world))) = []
   \<and> launcher_runs os_pip_fails [''launcher'', ''--x'', ''1'']
        (run_events fresh_world (snd (main os_pip_fails [''launcher'', ''--x'', ''1''] fresh_world))) = 0"
proof -
  define argv where "argv = [''launcher'', ''--x'', ''1'']"
  have run: "main os_pip_fails argv fresh_world =
      (fst (main os_pip_fails argv fresh_world), snd (main os_pip_fails argv fresh_world))"
    by simp
  have ran: "System (pip_command os_pip_fails) 3
      \<in> set (run_events fresh_world (snd (main os_pip_fails argv fresh_world)))"
    by (simp add: argv_def launcher_defs concrete_defs)
  have "files fresh_world (installed_marker os_pip_fails) = None"
    "files fresh_world (revision_marker os_pip_fails) = None"
    by (simp_all add: fresh_world_def)
  with install_failure_aborts [OF run ran] ran show ?thesis
    unfolding argv_def by simp
qed

text \<open>
  Claim C5, as the specification states it, fails in two ways. The revision marker
  receives the trimmed output of the revision query as it is, and that output need
  not be a single line: when the query prints two lines, so does the marker. And the
  markers are written through streams that nobody checks: when a directory is in the
  place of the revision marker, the stream does not open, the installation has
  succeeded, and the marker is not written.
\<close>

theorem revision_marker_two_lines_or_unwritten:
  "System (pip_command os_two_lines) 0
     \<in> set (run_events fresh_world (snd (main os_two_lines [''launcher''] fresh_world)))
   \<and> files (snd (main os_two_lines [''launcher''] fresh_world)) (revision_marker os_two_lines)
       = Some (File ''a\<newline>b'')
   \<and> System (pip_command os_ok) 0
     \<in> set (run_events marker_directory_world (snd (main os_ok [''launcher''] marker_directory_world)))
   \<and> files (snd (main os_ok [''launcher''] marker_directory_world)) (revision_marker os_ok)
       = Some Directory"
  by (simp add: launcher_defs concrete_defs isspace_def trim_def getline_def read_pipe.simps)

text \<open>
  Claim C5, amended. For every run in which the package-installation command
  succeeds, and that starts where both markers can be written (the operating system
  refuses neither, nothing but a directory is in the place of the \<^verbatim>\<open>temp\<close> folder, and
  no directory is in the place of a marker), the run then writes
  exactly two files, in this order: the installed marker, with the content
  \<^verbatim>\<open>installed\<close>, and the revision marker, whose content becomes the identifier that
  \<^verbatim>\<open>get_git_commit_hash\<close> makes of a revision query of this run, whatever the marker
  held before. That identifier has no white space around it, and nothing is written
  after it; it is one line when the output of the query is.
\<close>

theorem install_success_writes_markers:
  assumes "main os argv w = (status, w')"
      and "System (pip_command os) 0 \<in> set (run_events w w')"
      and "marker_writable os (files w) (installed_marker os)"
      and "marker_writable os (files w) (revision_marker os)"
  shows "\<exists>reply. Popen ''git rev-parse HEAD'' reply \<in> set (run_events w w')
           \<and> filter is_fs_write (run_events w w') =
               [FsWrite (installed_marker os) ''installed'',
                FsWrite (revision_marker os) (revision_of reply)]
           \<and> files w' (installed_marker os) = Some (File ''installed'')
           \<and> files w' (revision_marker os) = Some (File (revision_of reply))
           \<and> trim (revision_of reply) = revision_of reply"
proof -
  from installed_run [OF assms(1,2)] obtain v
    where probe: "popen_reply os (clock w) ''python --version'' = Some v"
      and gate: "gate_value os (files w) (Suc (clock w))"
      and pip: "system_reply os (install_clock os w) (pip_command os) = 0"
      and w': "w' = snd (main os argv w)"
    by blast
  define reply where "reply = popen_reply os (Suc (install_clock os w)) ''git rev-parse HEAD''"
  have eff: "effects (run_events w w') =
      gate_effects os w @
      [System (pip_command os) 0, FsWrite (installed_marker os) ''installed'',
       Popen ''git rev-parse HEAD'' reply, FsWrite (revision_marker os) (revision_of reply),
       System (python_command os argv)
         (system_reply os (Suc (Suc (install_clock os w))) (python_command os argv))]"
    unfolding w' main_effects using probe gate pip
    by (simp add: reply_def marker_effects_writable [OF assms(3,4)])
  have "Popen ''git rev-parse HEAD'' reply \<in> set (effects (run_events w w'))"
    unfolding eff by simp
  then have "Popen ''git rev-parse HEAD'' reply \<in> set (run_events w w')"
    by (simp add: mem_effects)
  moreover have "filter is_fs_write (run_events w w') =
               [FsWrite (installed_marker os) ''installed'',
                FsWrite (revision_marker os) (revision_of reply)]"
    using filter_is_fs_write_effects [of "run_events w w'"] unfolding eff by simp
  moreover have "files w' (installed_marker os) = Some (File ''installed'')"
    "files w' (revision_marker os) = Some (File (revision_of reply))"
    unfolding w' using main_installed(2) [OF probe gate pip, of argv]
    by (simp_all add: reply_def marked_simps assms(3,4))
  ultimately show ?thesis by auto
qed

theorem install_success_writes_markers_witness:
  "System (pip_command os_ok) 0
     \<in> set (run_events (installed_world ''old'') (snd (main os_ok [''launcher''] (installed_world ''old''))))
   \<and> marker_writable os_ok (files (installed_world ''old'')) (installed_marker os_ok)
   \<and> marker_writable os_ok (files (installed_world ''old'')) (revision_marker os_ok)
   \<and> files (snd (main os_ok [''launcher''] (installed_world ''old''))) (installed_marker os_ok)
       = Some (File ''installed'')
   \<and> files (snd (main os_ok [''launcher''] (installed_world ''old''))) (revision_marker os_ok)
       = Some (File ''abc'')
   \<and> (\<exists>reply. Popen ''git rev-parse HEAD'' reply
          \<in> set (run_events (installed_world ''old'') (snd (main os_ok [''launcher''] (installed_world ''old''))))
        \<and> files (snd (main os_ok [''launcher''] (installed_world ''old''))) (revision_marker os_ok)
            = Some (File (revision_of reply)))"
proof -
  define w where "w = installed_world ''old''"
  have run: "main os_ok [''launcher''] w = (fst (main os_ok [''launcher''] w), snd (main os_ok [''launcher''] w))"
    by simp
  have ran: "System (pip_command os_ok) 0 \<in> set (run_events w (snd (main os_ok [''launcher''] w)))"
    by (simp add: w_def launcher_defs concrete_defs isspace_def trim_def getline_def read_pipe.simps)
  have wr: "marker_writable os_ok (files w) (installed_marker os_ok)"
    "marker_writable os_ok (files w) (revision_marker os_ok)"
    by (simp_all add: w_def marker_writable_def launcher_defs concrete_defs)
  have "files (snd (main os_ok [''launcher''] w)) (revision_marker os_ok) = Some (File ''abc'')"
    by (simp add: w_def launcher_defs concrete_defs isspace_def trim_def getline_def read_pipe.simps)
  with install_success_writes_markers [OF run ran wr] ran wr show ?thesis
    unfolding w_def by auto
qed

text \<open>
  Claim C9, as stated, fails where the revision marker cannot be written. With a
  directory in its place the installation succeeds, the fresh revision query is made
  (here it cannot be started), and the marker is neither created as a file nor given
  the empty string; the directory stays. In a \<^verbatim>\<open>temp\<close> folder that cannot be written
  the same run leaves no revision marker at all.
\<close>

theorem revision_marker_not_created:
  "System (pip_command os_git_vanishes) 0
     \<in> set (run_events marker_directory_world
              (snd (main os_git_vanishes [''launcher''] marker_directory_world)))
   \<and> popen_reply os_git_vanishes (Suc (install_clock os_git_vanishes marker_directory_world))
        ''git rev-parse HEAD'' = None
   \<and> files (snd (main os_git_vanishes [''launcher''] marker_directory_world))
        (revision_marker os_git_vanishes) = Some Directory
   \<and> files (snd (main os_git_vanishes [''launcher''] marker_directory_world))
        (revision_marker os_git_vanishes) \<noteq> Some (File [])
   \<and> System (pip_command os_read_only) 0
     \<in> set (run_events empty_temp_world (snd (main os_read_only [''launcher''] empty_temp_world)))
   \<and> popen_reply os_read_only (Suc (install_clock os_read_only empty_temp_world))
        ''git rev-parse HEAD'' = None
   \<and> files (snd (main os_read_only [''launcher''] empty_temp_world)) (revision_marker os_read_only)
        = None"
  by (simp add: launcher_defs concrete_defs install_clock_def isspace_def trim_def getline_def
      read_pipe.simps)

text \<open>
  Claim C9, amended. After a successful installation, in a run that starts where the
  revision marker can be written (the operating system does not refuse it, nothing
  but a directory is in the place of the \<^verbatim>\<open>temp\<close> folder, and no directory is in the
  place of the marker), the value written into the revision marker comes
  from a fresh revision query made at write time: in the events of the run that query
  comes after the installation command, it is the external command that follows it
  (\<open>install_clock os w\<close> numbers the installation command, and the query of the install
  gate, when there was one, is command \<open>Suc (clock w)\<close>, before it), and the marker
  holds its trimmed answer. When that query cannot be started, the marker is still
  written, with the empty string.
\<close>

theorem revision_marker_from_fresh_probe:
  assumes "main os argv w = (status, w')"
      and "System (pip_command os) 0 \<in> set (run_events w w')"
      and "marker_writable os (files w) (revision_marker os)"
  shows "\<exists>pre mid post reply.
           run_events w w' =
             pre @ [System (pip_command os) 0] @ mid @ [Popen ''git rev-parse HEAD'' reply] @ post
         \<and> reply = popen_reply os (Suc (install_clock os w)) ''git rev-parse HEAD''
         \<and> files w' (revision_marker os) =
             Some (File (case reply of None \<Rightarrow> [] | Some bytes \<Rightarrow> trim (read_pipe bytes)))"
proof -
  from installed_run [OF assms(1,2)] obtain v
    where probe: "popen_reply os (clock w) ''python --version'' = Some v"
      and gate: "gate_value os (files w) (Suc (clock w))"
      and pip: "system_reply os (install_clock os w) (pip_command os) = 0"
      and w': "w' = snd (main os argv w)"
    by blast
  define reply where "reply = popen_reply os (Suc (install_clock os w)) ''git rev-parse HEAD''"
  obtain pre mid e r where tr: "trace w' =
      trace w @ pre @ [System (pip_command os) 0] @ mid @ [System (python_command os argv) r, e]"
    and mid: "effects mid = marker_effects os (files w) reply"
    unfolding w' reply_def using main_installed(4) [OF probe gate pip, of argv] by blast
  have "Popen ''git rev-parse HEAD'' reply \<in> set (effects mid)" unfolding mid by simp
  then have "Popen ''git rev-parse HEAD'' reply \<in> set mid" by (simp add: mem_effects)
  then obtain m1 m2 where m: "mid = m1 @ Popen ''git rev-parse HEAD'' reply # m2"
    by (auto dest: split_list)
  have "run_events w w' =
          pre @ [System (pip_command os) 0] @ m1 @ [Popen ''git rev-parse HEAD'' reply]
            @ (m2 @ [System (python_command os argv) r, e])"
    using tr m by simp
  moreover have "files w' (revision_marker os) =
             Some (File (case reply of None \<Rightarrow> [] | Some bytes \<Rightarrow> trim (read_pipe bytes)))"
    unfolding w' using main_installed(2) [OF probe gate pip, of argv] marked_simps(2) [OF assms(3), of reply]
    by (simp add: reply_def revision_of_def)
  ultimately show ?thesis using reply_def by blast
qed

theorem revision_marker_from_fresh_probe_witness:
  "System (pip_command os_git_vanishes) 0
     \<in> set (run_events (installed_world ''old'') (snd (main os_git_vanishes [''launcher''] (installed_world ''old''))))
   \<and> marker_writable os_git_vanishes (files (installed_world ''old'')) (revision_marker os_git_vanishes)
   \<and> Popen ''git rev-parse HEAD'' (Some ''abc\<newline>'')
     \<in> set (run_events (installed_world ''old'') (snd (main os_git_vanishes [''launcher''] (installed_world ''old''))))
   \<and> popen_reply os_git_vanishes (Suc (install_clock os_git_vanishes (installed_world ''old''))) ''git rev-parse HEAD''
       = None
   \<and> files (snd (main os_git_vanishes [''launcher''] (installed_world ''old''))) (revision_marker os_git_vanishes)
       = Some (File [])"
proof -
  define w where "w = installed_world ''old''"
  have run: "main os_git_vanishes [''launcher''] w =
      (fst (main os_git_vanishes [''launcher''] w), snd (main os_git_vanishes [''launcher''] w))"
    by simp
  have ran: "System (pip_command os_git_vanishes) 0
      \<in> set (run_events w (snd (main os_git_vanishes [''launcher''] w)))"
    and gate: "Popen ''git rev-parse HEAD'' (Some ''abc\<newline>'')
      \<in> set (run_events w (snd (main os_git_vanishes [''launcher''] w)))"
    by (simp_all add: w_def launcher_defs concrete_defs isspace_def trim_def getline_def read_pipe.simps)
  have wr: "marker_writable os_git_vanishes (files w) (revision_marker os_git_vanishes)"
    by (simp add: w_def marker_writable_def launcher_defs concrete_defs)
  have later: "popen_reply os_git_vanishes (Suc (install_clock os_git_vanishes w)) ''git rev-parse HEAD'' = None"
    by (simp add: w_def install_clock_def concrete_defs launcher_defs)
  from revision_marker_from_fresh_probe [OF run ran wr] later
  have "files (snd (main os_git_vanishes [''launcher''] w)) (revision_marker os_git_vanishes) = Some (File [])"
    by auto
  with ran gate later wr show ?thesis unfolding w_def by simp
qed

subsection \<open>Running twice\<close>




subsection \<open>The launcher\<close>

text \<open>
  Claim C2, as the specification states it, fails: a script that ends with status 3
  makes the launcher exit with status 1, not 3.
\<close>

theorem child_status_3_exits_1:
  "System (python_command os_script_fails [''launcher'']) 3
     \<in> set (run_events fresh_world (snd (main os_script_fails [''launcher''] fresh_world)))
   \<and> fst (main os_script_fails [''launcher''] fresh_world) = 1
   \<and> fst (main os_script_fails [''launcher''] fresh_world) \<noteq> 3"
  by (simp add: launcher_defs concrete_defs)

text \<open>
  Claim C2, amended. For every run in which the launched script terminates with status
  \<open>r\<close>, the launcher exits with status 0 when \<open>r\<close> is 0 and with status 1 otherwise.
\<close>

theorem launcher_status_collapsed:
  assumes "main os argv w = (status, w')"
      and "System (python_command os argv) r \<in> set (run_events w w')"
  shows "status = (if r = 0 then 0 else 1)"
proof -
  have w': "w' = snd (main os argv w)" and st: "status = fst (main os argv w)" using assms(1) by simp_all
  have "System (python_command os argv) r \<in> set (effects (run_events w (snd (main os argv w))))"
    using assms(2) by (simp add: mem_effects w')
  then show ?thesis
    unfolding st main_status main_effects
    by (auto split: option.splits if_splits)
qed

theorem launcher_status_collapsed_witness:
  "System (python_command os_ok [''launcher'', ''--x'', ''1'']) 0
     \<in> set (run_events fresh_world (snd (main os_ok [''launcher'', ''--x'', ''1''] fresh_world)))
   \<and> fst (main os_ok [''launcher'', ''--x'', ''1''] fresh_world) = 0"
proof -
  define argv where "argv = [''launcher'', ''--x'', ''1'']"
  have run: "main os_ok argv fresh_world = (fst (main os_ok argv fresh_world), snd (main os_ok argv fresh_world))"
    by simp
  have ran: "System (python_command os_ok argv) 0
      \<in> set (run_events fresh_world (snd (main os_ok argv fresh_world)))"
    by (simp add: argv_def launcher_defs concrete_defs)
  from launcher_status_collapsed [OF run ran] ran show ?thesis
    unfolding argv_def by simp
qed

text \<open>
  Claim C7, as the specification states it, fails: the launcher does not hand the
  arguments to the script, it pastes them into one command line for the shell. The
  argument list that holds the one argument \<^verbatim>\<open>a b\<close> and the list that holds the two
  arguments \<^verbatim>\<open>a\<close> and \<^verbatim>\<open>b\<close> give the same command line, so the script cannot receive
  exactly the arguments of both.
\<close>

theorem blank_in_argument_splits_it:
  "python_command os_ok [''launcher'', ''a b''] = ''python /app/src/main.py a b''
   \<and> python_command os_ok [''launcher'', ''a'', ''b''] = ''python /app/src/main.py a b''
   \<and> drop 1 [''launcher'', ''a b''] \<noteq> [''a'', ''b'']"
  by (simp add: launcher_defs concrete_defs)

text \<open>
  Claim C7, amended. For every argument list, the command line that the launcher
  passes to \<^verbatim>\<open>system\<close>, and the only command it runs, is \<^verbatim>\<open>python\<close>, a space and the
  script path, followed by the arguments after argument 0 in their order, each after
  one space and each copied unmodified: nothing is quoted or escaped. What the script
  receives is what the shell makes of that line.
\<close>

theorem launcher_command_line:
  "python_command os argv = ''python '' @ python_script os @ concat (map (\<lambda>a. '' '' @ a) (drop 1 argv))
   \<and> (\<exists>e0 e. run_events w (snd (launch os argv w)) =
          [e0, System (python_command os argv) (system_reply os (clock w) (python_command os argv)), e])"
proof -
  have "python_command os argv = ''python '' @ python_script os @ concat (map (\<lambda>a. '' '' @ a) (drop 1 argv))"
    by (simp add: python_command_def append_arguments_eq)
  moreover have "\<exists>e0 e. run_events w (snd (launch os argv w)) =
          [e0, System (python_command os argv) (system_reply os (clock w) (python_command os argv)), e]"
    using launch_trace [of os argv w] by auto
  ultimately show ?thesis by simp
qed

text \<open>
  Claim C10, as stated, fails. The command line is indeed the interpreter, the script
  path and the arguments joined with single spaces, but the space that an empty
  argument contributes is not always a separator: after an argument that ends in a
  backslash the shell takes it for a character of that argument. With the arguments
  \<^verbatim>\<open>a\\<close>, the empty string and \<^verbatim>\<open>b\<close> the script receives \<^verbatim>\<open>a\<close> followed by a space, and
  \<^verbatim>\<open>b\<close>; without the empty argument it receives the one argument \<^verbatim>\<open>a b\<close>.
\<close>

theorem empty_argument_after_backslash:
  "python_command os_ok [''launcher'', [CHR ''a'', CHR 0x5C], [], ''b''] =
     ''python /app/src/main.py a'' @ [CHR 0x5C] @ ''  b''
   \<and> sh_words (python_command os_ok [''launcher'', [CHR ''a'', CHR 0x5C], [], ''b'']) =
       Some [''python'', ''/app/src/main.py'', ''a '', ''b'']
   \<and> sh_words (python_command os_ok [''launcher'', [CHR ''a'', CHR 0x5C], ''b'']) =
       Some [''python'', ''/app/src/main.py'', ''a b'']"
  by (simp add: launcher_defs concrete_defs sh_words_def reserved_words_def plain_char_def)

text \<open>
  Claim C10, amended. The one command that the launcher runs is the interpreter, the
  script path and the forwarded arguments joined with single spaces. An empty argument
  contributes one space to that line and nothing else. When the script path and the
  arguments are made of letters, digits and the characters \<^verbatim>\<open>/ . - _\<close> only, the words
  that the shell makes of the line are \<^verbatim>\<open>python\<close>, the script path and the arguments
  that are not empty, in their order: an empty argument is not delivered to the
  script.
\<close>

theorem empty_argument_is_lost:
  assumes "list_all plain_char (python_script os)"
      and "list_all (list_all plain_char) (drop 1 argv)"
  shows "(\<exists>e0 e. run_events w (snd (launch os argv w)) =
            [e0,
             System (join_with_spaces (''python'' # python_script os # drop 1 argv))
               (system_reply os (clock w) (python_command os argv)),
             e])
       \<and> python_command os (a0 # xs @ [[]] @ ys) =
           python_command os (a0 # xs) @ '' '' @ concat (map (\<lambda>a. '' '' @ a) ys)
       \<and> sh_words (python_command os argv) =
           Some (''python'' # python_script os # filter (\<lambda>a. a \<noteq> []) (drop 1 argv))"
proof -
  have join: "python_command os argv = join_with_spaces (''python'' # python_script os # drop 1 argv)"
    by (simp add: python_command_def append_arguments_eq join_with_spaces_eq)
  have "\<exists>e0 e. run_events w (snd (launch os argv w)) =
      [e0, System (python_command os argv) (system_reply os (clock w) (python_command os argv)), e]"
    using launch_trace [of os argv w] by auto
  then have "\<exists>e0 e. run_events w (snd (launch os argv w)) =
      [e0,
       System (join_with_spaces (''python'' # python_script os # drop 1 argv))
         (system_reply os (clock w) (python_command os argv)),
       e]"
    by (simp only: join [symmetric])
  moreover have "python_command os (a0 # xs @ [[]] @ ys) =
       python_command os (a0 # xs) @ '' '' @ concat (map (\<lambda>a. '' '' @ a) ys)"
    by (simp add: python_command_def append_arguments_eq)
  moreover note sh_words_command [OF assms]
  ultimately show ?thesis by blast
qed

theorem empty_argument_is_lost_witness:
  "list_all plain_char (python_script os_ok)
   \<and> list_all (list_all plain_char) (drop 1 [''launcher'', ''--x'', [], ''1''])
   \<and> python_command os_ok [''launcher'', ''--x'', [], ''1''] = ''python /app/src/main.py --x  1''
   \<and> sh_words (python_command os_ok [''launcher'', ''--x'', [], ''1'']) =
       Some [''python'', ''/app/src/main.py'', ''--x'', ''1'']"
proof -
  have script: "list_all plain_char (python_script os_ok)"
    by (simp add: launcher_defs concrete_defs plain_char_def)
  have args: "list_all (list_all plain_char) (drop 1 [''launcher'', ''--x'', [], ''1''])"
    by (simp add: plain_char_def)
  have line: "python_command os_ok [''launcher'', ''--x'', [], ''1''] = ''python /app/src/main.py --x  1''"
    by (simp add: launcher_defs concrete_defs)
  have "python_script os_ok = ''/app/src/main.py''" by (simp add: launcher_defs concrete_defs)
  with empty_argument_is_lost [OF script args] script args line show ?thesis by simp
qed

end
